theory Spec2Isabelle
  imports Complex_Main "HOL-Library.Word"
begin

unbundle bit_operations_syntax

section \<open>Block types and the block registry\<close>

text \<open>
  The enum \<open>BlockType\<close> (types/BlockType): \<open>AIR\<close> is 0, the other tags follow in the
  order of declaration, and \<open>COUNT\<close> is the sentinel that closes the enum.
\<close>

datatype BlockType =
    AIR | STONE | DIRT | GRASS | SAND | WATER
  | WOOD_OAK | LEAVES_OAK | WOOD_BIRCH | LEAVES_BIRCH | WOOD_SPRUCE | LEAVES_SPRUCE
  | COAL_ORE | IRON_ORE | GOLD_ORE | DIAMOND_ORE
  | BEDROCK | GRAVEL | COBBLESTONE | PLANKS_OAK | CRAFTING_TABLE | FURNACE | GLASS
  | TORCH | TALL_GRASS | FLOWER_RED | FLOWER_YELLOW | CACTUS | SNOW | ICE | SAND_STONE
  | WOOD_JUNGLE | LEAVES_JUNGLE
  | COUNT

text \<open>
  \<open>BlockTextureFaces\<close> and \<open>Block\<close> (world/Block) are only imported by the registry;
  their fields are those the registry writes in \<open>register\<close>. An absent optional field
  of the faces object is \<open>None\<close>.
\<close>

record BlockTextureFaces =
  face_all :: "string option"
  face_top :: "string option"
  face_bottom :: "string option"
  face_side :: "string option"

record Block =
  block_id :: BlockType
  name :: string
  transparent :: bool
  solid :: bool
  hardness :: real
  toolType :: string
  textureFaces :: BlockTextureFaces
  lightEmission :: nat

datatype Face = FaceTop | FaceBottom | FaceSide

text \<open>The only exception of the registry: \<open>throw new Error("BlockRegistry: unknown block type ...")\<close>.\<close>

datatype error = UnknownBlockType BlockType

text \<open>\<open>BlockRegistryImpl\<close>: its one field is the map \<open>blocks\<close>.\<close>

type_synonym BlockRegistryImpl = "BlockType \<rightharpoonup> Block"

definition register ::
  "BlockType \<Rightarrow> string \<Rightarrow> bool \<Rightarrow> bool \<Rightarrow> real \<Rightarrow> string \<Rightarrow> BlockTextureFaces \<Rightarrow> nat
    \<Rightarrow> BlockRegistryImpl \<Rightarrow> BlockRegistryImpl" where
  "register i nm tr so hrd tt tf le blocks =
     blocks(i \<mapsto> \<lparr>block_id = i, name = nm, transparent = tr, solid = so, hardness = hrd,
                   toolType = tt, textureFaces = tf, lightEmission = le\<rparr>)"

definition get :: "BlockRegistryImpl \<Rightarrow> BlockType \<Rightarrow> error + Block" where
  "get blocks ty = (case blocks ty of None \<Rightarrow> Inl (UnknownBlockType ty) | Some block \<Rightarrow> Inr block)"

definition has :: "BlockRegistryImpl \<Rightarrow> BlockType \<Rightarrow> bool" where
  "has blocks ty = (blocks ty \<noteq> None)"

text \<open>A JavaScript string is truthy when it is not empty.\<close>

definition truthy :: "string option \<Rightarrow> bool" where
  "truthy s = (case s of None \<Rightarrow> False | Some t \<Rightarrow> t \<noteq> [])"

definition face_of :: "BlockTextureFaces \<Rightarrow> Face \<Rightarrow> string option" where
  "face_of faces f = (case f of FaceTop \<Rightarrow> face_top faces | FaceBottom \<Rightarrow> face_bottom faces
                       | FaceSide \<Rightarrow> face_side faces)"

definition getTexture :: "BlockRegistryImpl \<Rightarrow> BlockType \<Rightarrow> Face \<Rightarrow> error + string" where
  "getTexture blocks ty f =
     (case get blocks ty of
        Inl e \<Rightarrow> Inl e
      | Inr block \<Rightarrow>
          (let faces = textureFaces block in
           if truthy (face_all faces) then Inr (the (face_all faces))
           else (case face_of faces f of
                   Some s \<Rightarrow> Inr s
                 | None \<Rightarrow> (case face_side faces of Some s \<Rightarrow> Inr s | None \<Rightarrow> Inr ''missing''))))"

definition isTransparent :: "BlockRegistryImpl \<Rightarrow> BlockType \<Rightarrow> error + bool" where
  "isTransparent blocks ty =
     (if ty = AIR then Inr True
      else if has blocks ty
           then (case get blocks ty of Inl e \<Rightarrow> Inl e | Inr block \<Rightarrow> Inr (transparent block))
           else Inr False)"

definition isSolid :: "BlockRegistryImpl \<Rightarrow> BlockType \<Rightarrow> error + bool" where
  "isSolid blocks ty =
     (if ty = AIR then Inr False
      else if has blocks ty
           then (case get blocks ty of Inl e \<Rightarrow> Inl e | Inr block \<Rightarrow> Inr (solid block))
           else Inr True)"

definition faces_all :: "string \<Rightarrow> BlockTextureFaces" where
  "faces_all s = \<lparr>face_all = Some s, face_top = None, face_bottom = None, face_side = None\<rparr>"

definition faces_tbs :: "string \<Rightarrow> string \<Rightarrow> string \<Rightarrow> BlockTextureFaces" where
  "faces_tbs t b s = \<lparr>face_all = None, face_top = Some t, face_bottom = Some b, face_side = Some s\<rparr>"

text \<open>The registrations of the module, in the order of the source, the first one innermost.\<close>

definition BlockRegistry :: BlockRegistryImpl where
  "BlockRegistry =
    (register LEAVES_JUNGLE ''Jungle Leaves'' True True 0.2 ''shears'' (faces_all ''jungle_leaves'') 0
    (register WOOD_JUNGLE ''Jungle Wood'' False True 2.0 ''axe''
        (faces_tbs ''jungle_log_top'' ''jungle_log_top'' ''jungle_log_side'') 0
    (register CACTUS ''Cactus'' True True 0.4 ''none''
        (faces_tbs ''cactus_top'' ''cactus_bottom'' ''cactus_side'') 0
    (register FLOWER_YELLOW ''Yellow Flower'' True False 0 ''none'' (faces_all ''flower_yellow'') 0
    (register FLOWER_RED ''Red Flower'' True False 0 ''none'' (faces_all ''flower_red'') 0
    (register TALL_GRASS ''Tall Grass'' True False 0 ''shears'' (faces_all ''tall_grass'') 0
    (register TORCH ''Torch'' True False 0 ''none'' (faces_all ''torch'') 14
    (register GLASS ''Glass'' True True 0.3 ''none'' (faces_all ''glass'') 0
    (register FURNACE ''Furnace'' False True 3.5 ''pickaxe''
        (faces_tbs ''furnace_top'' ''furnace_top'' ''furnace_side'') 0
    (register CRAFTING_TABLE ''Crafting Table'' False True 2.5 ''axe''
        (faces_tbs ''crafting_table_top'' ''oak_planks'' ''crafting_table_side'') 0
    (register DIAMOND_ORE ''Diamond Ore'' False True 3.0 ''pickaxe'' (faces_all ''diamond_ore'') 0
    (register GOLD_ORE ''Gold Ore'' False True 3.0 ''pickaxe'' (faces_all ''gold_ore'') 0
    (register IRON_ORE ''Iron Ore'' False True 3.0 ''pickaxe'' (faces_all ''iron_ore'') 0
    (register COAL_ORE ''Coal Ore'' False True 3.0 ''pickaxe'' (faces_all ''coal_ore'') 0
    (register LEAVES_SPRUCE ''Spruce Leaves'' True True 0.2 ''shears'' (faces_all ''spruce_leaves'') 0
    (register WOOD_SPRUCE ''Spruce Wood'' False True 2.0 ''axe''
        (faces_tbs ''spruce_log_top'' ''spruce_log_top'' ''spruce_log_side'') 0
    (register LEAVES_BIRCH ''Birch Leaves'' True True 0.2 ''shears'' (faces_all ''birch_leaves'') 0
    (register WOOD_BIRCH ''Birch Wood'' False True 2.0 ''axe''
        (faces_tbs ''birch_log_top'' ''birch_log_top'' ''birch_log_side'') 0
    (register PLANKS_OAK ''Oak Planks'' False True 2.0 ''axe'' (faces_all ''oak_planks'') 0
    (register LEAVES_OAK ''Oak Leaves'' True True 0.2 ''shears'' (faces_all ''oak_leaves'') 0
    (register WOOD_OAK ''Oak Wood'' False True 2.0 ''axe''
        (faces_tbs ''oak_log_top'' ''oak_log_top'' ''oak_log_side'') 0
    (register ICE ''Ice'' True True 0.5 ''pickaxe'' (faces_all ''ice'') 0
    (register WATER ''Water'' True False 0 ''none'' (faces_all ''water'') 0
    (register SNOW ''Snow'' False True 0.2 ''shovel'' (faces_all ''snow'') 0
    (register GRAVEL ''Gravel'' False True 0.6 ''shovel'' (faces_all ''gravel'') 0
    (register SAND_STONE ''Sandstone'' False True 0.8 ''pickaxe''
        (faces_tbs ''sandstone_top'' ''sandstone_bottom'' ''sandstone_side'') 0
    (register SAND ''Sand'' False True 0.5 ''shovel'' (faces_all ''sand'') 0
    (register GRASS ''Grass Block'' False True 0.6 ''shovel''
        (faces_tbs ''grass_top'' ''dirt'' ''grass_side'') 0
    (register DIRT ''Dirt'' False True 0.5 ''shovel'' (faces_all ''dirt'') 0
    (register BEDROCK ''Bedrock'' False True (-1) ''none'' (faces_all ''bedrock'') 0
    (register COBBLESTONE ''Cobblestone'' False True 2.0 ''pickaxe'' (faces_all ''cobblestone'') 0
    (register STONE ''Stone'' False True 1.5 ''pickaxe'' (faces_all ''stone'') 0
    (register AIR ''Air'' True False 0 ''none'' (faces_all ''air'') 0
      Map.empty)))))))))))))))))))))))))))))))))"


section \<open>Biomes and the biome decision table\<close>

datatype Biome = PLAINS | FOREST | DESERT | TAIGA | MOUNTAINS | OCEAN | BEACH | TUNDRA | JUNGLE | SWAMP

text \<open>
  \<open>BiomeMap\<close> holds two noise functions made by the library \<open>simplex-noise\<close> from seeded
  streams; they are taken as given. JavaScript numbers are modelled as reals where they are
  fractions (noise values, temperature, moisture) and as integers where they are block
  coordinates; the decimal literals of the source stand for themselves. Sums and products of
  fractions are exact here and rounded to doubles in the source, so a value within one
  rounding step of a threshold can fall on its other side there.
\<close>

type_synonym NoiseFunction2D = "real \<Rightarrow> real \<Rightarrow> real"

record BiomeMap =
  temperatureNoise :: NoiseFunction2D
  moistureNoise :: NoiseFunction2D

definition TEMPERATURE_SCALE :: real where
  "TEMPERATURE_SCALE = 0.0008"

definition MOISTURE_SCALE :: real where
  "MOISTURE_SCALE = 0.0006"

definition getTemperature :: "BiomeMap \<Rightarrow> int \<Rightarrow> int \<Rightarrow> real" where
  "getTemperature bm worldX worldZ =
     (let raw = temperatureNoise bm (of_int worldX * TEMPERATURE_SCALE) (of_int worldZ * TEMPERATURE_SCALE)
      in (raw + 1) * 0.5)"

definition getMoisture :: "BiomeMap \<Rightarrow> int \<Rightarrow> int \<Rightarrow> real" where
  "getMoisture bm worldX worldZ =
     (let raw = moistureNoise bm (of_int worldX * MOISTURE_SCALE) (of_int worldZ * MOISTURE_SCALE)
      in (raw + 1) * 0.5)"

definition getBiome :: "BiomeMap \<Rightarrow> int \<Rightarrow> int \<Rightarrow> Biome" where
  "getBiome bm worldX worldZ =
     (let temp = getTemperature bm worldX worldZ;
          moist = getMoisture bm worldX worldZ
      in if moist > 0.78 then (if moist > 0.85 then OCEAN else BEACH)
         else if temp < 0.2 then TUNDRA
         else if temp < 0.45 then (if moist > 0.5 then TAIGA else TUNDRA)
         else if temp < 0.7 then
           (if moist > 0.68 then SWAMP
            else if moist > 0.55 then FOREST
            else if moist > 0.3 then PLAINS
            else PLAINS)
         else if moist > 0.55 then JUNGLE
         else if moist > 0.35 then PLAINS
         else DESERT)"

text \<open>A biome map whose two fields are constant: temperature \<open>t\<close> and moisture \<open>m\<close> everywhere.\<close>

definition constBiomeMap :: "real \<Rightarrow> real \<Rightarrow> BiomeMap" where
  "constBiomeMap t m = \<lparr>temperatureNoise = (\<lambda>_ _. 2 * t - 1), moistureNoise = (\<lambda>_ _. 2 * m - 1)\<rparr>"

section \<open>Chunks\<close>

text \<open>
  The constants of utils/Constants. The generators use the literals 16 (\<open>localX 0..15\<close>, the
  chunk centre at offset 8) and 256 (\<open>placeY >= 256\<close>) for the same bounds.
\<close>

abbreviation CHUNK_SIZE :: int where
  "CHUNK_SIZE \<equiv> 16"

abbreviation CHUNK_HEIGHT :: int where
  "CHUNK_HEIGHT \<equiv> 256"

text \<open>
  Modelled from the spec: the class \<open>Chunk\<close> (world/Chunk) is not among the sources. The
  spec gives it integer column coordinates, a grid of block tags of extent
  \<open>CHUNK_SIZE \<times> CHUNK_HEIGHT \<times> CHUNK_SIZE\<close>, and \<open>getBlock\<close>/\<open>setBlock\<close> with bounds checks:
  a read outside the grid returns the absent block (\<open>AIR\<close>, tag 0), a write outside the
  grid is dropped.
\<close>

record Chunk =
  chunk_cx :: int
  chunk_cz :: int
  blocks :: "int \<times> int \<times> int \<Rightarrow> BlockType"

definition chunkInBounds :: "int \<Rightarrow> int \<Rightarrow> int \<Rightarrow> bool" where
  "chunkInBounds x y z =
     (0 \<le> x \<and> x < CHUNK_SIZE \<and> 0 \<le> y \<and> y < CHUNK_HEIGHT \<and> 0 \<le> z \<and> z < CHUNK_SIZE)"

definition getBlock :: "Chunk \<Rightarrow> int \<Rightarrow> int \<Rightarrow> int \<Rightarrow> BlockType" where
  "getBlock chunk x y z = (if chunkInBounds x y z then blocks chunk (x, y, z) else AIR)"

definition setBlock :: "Chunk \<Rightarrow> int \<Rightarrow> int \<Rightarrow> int \<Rightarrow> BlockType \<Rightarrow> Chunk" where
  "setBlock chunk x y z b =
     (if chunkInBounds x y z then chunk\<lparr>blocks := (blocks chunk)((x, y, z) := b)\<rparr> else chunk)"

text \<open>A new chunk: every cell of the grid is \<open>AIR\<close>.\<close>

definition emptyChunk :: "int \<Rightarrow> int \<Rightarrow> Chunk" where
  "emptyChunk cx cz = \<lparr>chunk_cx = cx, chunk_cz = cz, blocks = (\<lambda>_. AIR)\<rparr>"

text \<open>The grid has no cell outside its bounds: in the model such a cell is never written and holds \<open>AIR\<close>.\<close>

definition wellFormed :: "Chunk \<Rightarrow> bool" where
  "wellFormed chunk = (\<forall>x y z. \<not> chunkInBounds x y z \<longrightarrow> blocks chunk (x, y, z) = AIR)"

text \<open>The heightmap \<open>number[][]\<close>, read only at indices inside the chunk.\<close>

type_synonym Heightmap = "int \<Rightarrow> int \<Rightarrow> int"

section \<open>The seeded generator mulberry32\<close>

text \<open>
  The closure returned by \<open>mulberry32\<close> owns one variable, \<open>seed\<close>, a 32-bit integer: it is the
  state of a stream. One call advances the state and returns \<open>k / 2^32\<close> for a 32-bit
  unsigned \<open>k\<close>. \<open>Math.imul\<close> is the multiplication of 32-bit words, \<open>>>>\<close> the logical shift.
\<close>

type_synonym Rng = "32 word"

definition imul :: "32 word \<Rightarrow> 32 word \<Rightarrow> 32 word" where
  "imul a b = a * b"

definition mulberry32_word :: "32 word \<Rightarrow> 32 word" where
  "mulberry32_word seed =
     (let t = imul (seed XOR drop_bit 15 seed) (1 OR seed);
          t = (t + imul (t XOR drop_bit 7 t) (61 OR t)) XOR t
      in t XOR drop_bit 14 t)"

definition mulberry32 :: "Rng \<Rightarrow> real \<times> Rng" where
  "mulberry32 seed0 =
     (let seed = seed0 + 0x6d2b79f5
      in (real (unat (mulberry32_word seed)) / 4294967296, seed))"

text \<open>
  \<open>ToInt32\<close> of a number that is an integer. The per-chunk hashes apply it to products of a
  world coordinate with a constant; the products are exact integers here, and doubles in the
  source, which are the same numbers while they stay below \<open>2^53\<close> in magnitude.
\<close>

definition toInt32 :: "int \<Rightarrow> 32 word" where
  "toInt32 n = word_of_int n"

section \<open>TreeGenerator\<close>

datatype TreeType = OAK | BIRCH | SPRUCE | JUNGLE_TREE

text \<open>
  A method that calls the stream \<open>rng\<close> takes its state and returns the new state with its
  result. A \<open>for\<close> loop over a range of integers is a \<open>fold\<close> over that range; \<open>continue\<close> is
  the branch that returns the chunk unchanged.
\<close>

definition isInBounds :: "int \<Rightarrow> int \<Rightarrow> int \<Rightarrow> bool" where
  "isInBounds lx y lz =
     (lx \<ge> 0 \<and> lx < CHUNK_SIZE \<and> lz \<ge> 0 \<and> lz < CHUNK_SIZE \<and> y \<ge> 0 \<and> y < CHUNK_HEIGHT)"

definition setIfInBounds :: "Chunk \<Rightarrow> int \<Rightarrow> int \<Rightarrow> int \<Rightarrow> BlockType \<Rightarrow> Chunk" where
  "setIfInBounds chunk lx y lz block =
     (if isInBounds lx y lz then setBlock chunk lx y lz block else chunk)"

definition placeLeafSphere :: "Chunk \<Rightarrow> int \<Rightarrow> int \<Rightarrow> int \<Rightarrow> int \<Rightarrow> BlockType \<Rightarrow> Chunk" where
  "placeLeafSphere chunk cx cy cz radius leafBlock =
     fold (\<lambda>dx. fold (\<lambda>dy. fold (\<lambda>dz chunk.
         let distSq = dx * dx + dy * dy + dz * dz in
         if real_of_int distSq > (real_of_int radius + 0.5) * (real_of_int radius + 0.5) then chunk
         else
           let bx = cx + dx; by = cy + dy; bz = cz + dz in
           if isInBounds bx by bz then
             (let existing = getBlock chunk bx by bz in
              if existing = AIR then setBlock chunk bx by bz leafBlock else chunk)
           else chunk)
       [- radius .. radius]) [- radius .. radius + 1]) [- radius .. radius] chunk"

definition placeTrunk :: "Chunk \<Rightarrow> int \<Rightarrow> int \<Rightarrow> int \<Rightarrow> int \<Rightarrow> BlockType \<Rightarrow> Chunk" where
  "placeTrunk chunk lx y lz trunkHeight wood =
     fold (\<lambda>dy chunk. setIfInBounds chunk lx (y + dy) lz wood) [0 .. trunkHeight - 1] chunk"

definition placeOakTree :: "Chunk \<Rightarrow> int \<Rightarrow> int \<Rightarrow> int \<Rightarrow> Rng \<Rightarrow> Chunk \<times> Rng" where
  "placeOakTree chunk lx y lz rng =
     (let (r, rng) = mulberry32 rng;
          trunkHeight = 4 + \<lfloor>r * 3\<rfloor>;
          leafRadius = 2;
          chunk = placeTrunk chunk lx y lz trunkHeight WOOD_OAK;
          leafCenterY = y + trunkHeight - 1
      in (placeLeafSphere chunk lx leafCenterY lz leafRadius LEAVES_OAK, rng))"

definition placeBirchTree :: "Chunk \<Rightarrow> int \<Rightarrow> int \<Rightarrow> int \<Rightarrow> Rng \<Rightarrow> Chunk \<times> Rng" where
  "placeBirchTree chunk lx y lz rng =
     (let (r, rng) = mulberry32 rng;
          trunkHeight = 5 + \<lfloor>r * 3\<rfloor>;
          leafRadius = 2;
          chunk = placeTrunk chunk lx y lz trunkHeight WOOD_BIRCH;
          leafCenterY = y + trunkHeight - 1
      in (placeLeafSphere chunk lx leafCenterY lz leafRadius LEAVES_BIRCH, rng))"

text \<open>
  The layers of the spruce cone. \<open>Math.round\<close> rounds a half upwards, as \<open>round\<close> does; the
  fraction is a real here, a double in the source.
\<close>

definition spruceLayers :: "Chunk \<Rightarrow> int \<Rightarrow> int \<Rightarrow> int \<Rightarrow> int \<Rightarrow> Chunk" where
  "spruceLayers chunk lx y lz trunkHeight =
     (let leafStartOffset = 2;
          leafBottomY = y + leafStartOffset;
          leafTopY = y + trunkHeight;
          totalLeafLayers = leafTopY - leafBottomY + 1
      in fold (\<lambda>ly chunk.
           let layerIndex = ly - leafBottomY;
               fraction = real_of_int layerIndex / real_of_int (max (totalLeafLayers - 1) 1);
               radius = max (round ((1 - fraction) * 3)) 0
           in fold (\<lambda>dx. fold (\<lambda>dz chunk.
                if \<bar>dx\<bar> = radius \<and> \<bar>dz\<bar> = radius \<and> radius > 1 then chunk
                else if dx = 0 \<and> dz = 0 \<and> ly < y + trunkHeight then chunk
                else setIfInBounds chunk (lx + dx) ly (lz + dz) LEAVES_SPRUCE)
              [- radius .. radius]) [- radius .. radius] chunk)
         [leafBottomY .. leafTopY] chunk)"

definition placeSpruceTree :: "Chunk \<Rightarrow> int \<Rightarrow> int \<Rightarrow> int \<Rightarrow> Rng \<Rightarrow> Chunk \<times> Rng" where
  "placeSpruceTree chunk lx y lz rng =
     (let (r, rng) = mulberry32 rng;
          trunkHeight = 6 + \<lfloor>r * 4\<rfloor>;
          chunk = placeTrunk chunk lx y lz trunkHeight WOOD_SPRUCE;
          leafTopY = y + trunkHeight;
          chunk = spruceLayers chunk lx y lz trunkHeight
      in (setIfInBounds chunk lx (leafTopY + 1) lz LEAVES_SPRUCE, rng))"

definition placeJungleTree :: "Chunk \<Rightarrow> int \<Rightarrow> int \<Rightarrow> int \<Rightarrow> Rng \<Rightarrow> Chunk \<times> Rng" where
  "placeJungleTree chunk lx y lz rng =
     (let (r, rng) = mulberry32 rng;
          trunkHeight = 8 + \<lfloor>r * 7\<rfloor>;
          leafRadius = 3;
          chunk = placeTrunk chunk lx y lz trunkHeight WOOD_JUNGLE;
          leafCenterY = y + trunkHeight - 1
      in (placeLeafSphere chunk lx leafCenterY lz leafRadius LEAVES_JUNGLE, rng))"

definition generateTree :: "Chunk \<Rightarrow> int \<Rightarrow> int \<Rightarrow> int \<Rightarrow> TreeType \<Rightarrow> Rng \<Rightarrow> Chunk \<times> Rng" where
  "generateTree chunk localX y localZ treeType rng =
     (case treeType of
        OAK \<Rightarrow> placeOakTree chunk localX y localZ rng
      | BIRCH \<Rightarrow> placeBirchTree chunk localX y localZ rng
      | SPRUCE \<Rightarrow> placeSpruceTree chunk localX y localZ rng
      | JUNGLE_TREE \<Rightarrow> placeJungleTree chunk localX y localZ rng)"

section \<open>TerrainGenerator\<close>

record BiomeHeightConfig =
  minHeight :: real
  maxHeight :: real
  amplitude :: real

definition BIOME_HEIGHT :: "Biome \<Rightarrow> BiomeHeightConfig" where
  "BIOME_HEIGHT biome =
     (case biome of
        PLAINS \<Rightarrow> \<lparr>minHeight = 60, maxHeight = 72, amplitude = 0.5\<rparr>
      | FOREST \<Rightarrow> \<lparr>minHeight = 62, maxHeight = 76, amplitude = 0.55\<rparr>
      | DESERT \<Rightarrow> \<lparr>minHeight = 62, maxHeight = 68, amplitude = 0.25\<rparr>
      | TAIGA \<Rightarrow> \<lparr>minHeight = 62, maxHeight = 76, amplitude = 0.55\<rparr>
      | MOUNTAINS \<Rightarrow> \<lparr>minHeight = 70, maxHeight = 130, amplitude = 1.0\<rparr>
      | OCEAN \<Rightarrow> \<lparr>minHeight = 30, maxHeight = 58, amplitude = 0.6\<rparr>
      | BEACH \<Rightarrow> \<lparr>minHeight = 60, maxHeight = 64, amplitude = 0.15\<rparr>
      | TUNDRA \<Rightarrow> \<lparr>minHeight = 62, maxHeight = 70, amplitude = 0.35\<rparr>
      | JUNGLE \<Rightarrow> \<lparr>minHeight = 60, maxHeight = 76, amplitude = 0.6\<rparr>
      | SWAMP \<Rightarrow> \<lparr>minHeight = 58, maxHeight = 64, amplitude = 0.2\<rparr>)"

text \<open>
  Modelled from the spec: the classes \<open>CaveGenerator\<close> and \<open>OreGenerator\<close> are not among the
  sources. The spec makes every generator pass a pure function of the seed, the chunk
  coordinates and the block grid; a pass is a function from the chunk and its world
  coordinates to the chunk it leaves, fixed when the generator is constructed from its seed.
\<close>

type_synonym ChunkPass = "Chunk \<Rightarrow> int \<Rightarrow> int \<Rightarrow> Chunk"

text \<open>
  The fields of \<open>TerrainGenerator\<close>. The noise functions are made by the library
  \<open>simplex-noise\<close> in the constructor, six octaves of them; the tree generator has no
  field, and the structure and mineshaft generators hold the same seed.
\<close>

record TerrainGenerator =
  gen_seed :: int
  biomeMap :: BiomeMap
  caveGenerator :: ChunkPass
  oreGenerator :: ChunkPass
  noiseOctaves :: "NoiseFunction2D list"
  mountainNoise :: NoiseFunction2D

abbreviation OCTAVE_COUNT :: nat where
  "OCTAVE_COUNT \<equiv> 6"

definition MOUNTAIN_SCALE :: real where
  "MOUNTAIN_SCALE = 0.001"

definition MOUNTAIN_THRESHOLD :: real where
  "MOUNTAIN_THRESHOLD = 0.45"

definition sampleHeightNoise :: "TerrainGenerator \<Rightarrow> int \<Rightarrow> int \<Rightarrow> real" where
  "sampleHeightNoise g wx wz =
     (let (v, amp, frequency, maxAmplitude) =
            fold (\<lambda>i (v, amp, frequency, maxAmplitude).
                    (v + (noiseOctaves g ! i) (of_int wx * frequency) (of_int wz * frequency) * amp,
                     amp * 0.5, frequency * 2.0, maxAmplitude + amp))
                 [0 ..< OCTAVE_COUNT] (0, 1, 0.005, 0)
      in (v / maxAmplitude + 1) * 0.5)"

definition isMountainRegion :: "TerrainGenerator \<Rightarrow> int \<Rightarrow> int \<Rightarrow> bool" where
  "isMountainRegion g wx wz =
     (let n = mountainNoise g (of_int wx * MOUNTAIN_SCALE) (of_int wz * MOUNTAIN_SCALE)
      in (n + 1) * 0.5 > MOUNTAIN_THRESHOLD)"

definition getSurfaceBlock :: "Biome \<Rightarrow> BlockType" where
  "getSurfaceBlock biome =
     (case biome of
        PLAINS \<Rightarrow> GRASS | FOREST \<Rightarrow> GRASS | DESERT \<Rightarrow> SAND | TAIGA \<Rightarrow> GRASS
      | MOUNTAINS \<Rightarrow> STONE | OCEAN \<Rightarrow> SAND | BEACH \<Rightarrow> SAND | TUNDRA \<Rightarrow> SNOW
      | JUNGLE \<Rightarrow> GRASS | SWAMP \<Rightarrow> GRASS)"

definition getSubSurfaceBlock :: "Biome \<Rightarrow> BlockType" where
  "getSubSurfaceBlock biome =
     (case biome of
        DESERT \<Rightarrow> SAND | BEACH \<Rightarrow> SAND | OCEAN \<Rightarrow> SAND | MOUNTAINS \<Rightarrow> STONE
      | TUNDRA \<Rightarrow> DIRT | JUNGLE \<Rightarrow> DIRT | SWAMP \<Rightarrow> DIRT
      | _ \<Rightarrow> DIRT)"

text \<open>
  \<open>SEA_LEVEL\<close> is a constant of utils/Constants whose value is not among the sources: it is
  a parameter of every function that reads it.
\<close>

definition fillColumn :: "int \<Rightarrow> Chunk \<Rightarrow> int \<Rightarrow> int \<Rightarrow> int \<Rightarrow> Biome \<Rightarrow> Chunk" where
  "fillColumn SEA_LEVEL chunk lx lz surfaceHeight biome =
     fold (\<lambda>y chunk.
        if y = 0 then setBlock chunk lx y lz BEDROCK
        else if y < surfaceHeight - 4 then setBlock chunk lx y lz STONE
        else if y < surfaceHeight then setBlock chunk lx y lz (getSubSurfaceBlock biome)
        else if y = surfaceHeight then setBlock chunk lx y lz (getSurfaceBlock biome)
        else if y \<le> SEA_LEVEL \<and> biome = OCEAN then setBlock chunk lx y lz WATER
        else if y \<le> SEA_LEVEL \<and> surfaceHeight < SEA_LEVEL then setBlock chunk lx y lz WATER
        else setBlock chunk lx y lz AIR)
      [0 .. CHUNK_HEIGHT - 1] chunk"

text \<open>The biome of a column with the mountain override applied, as both \<open>buildTerrain\<close> and
  \<open>placeTrees\<close> compute it.\<close>

definition effectiveBiome :: "TerrainGenerator \<Rightarrow> int \<Rightarrow> int \<Rightarrow> Biome" where
  "effectiveBiome g wx wz =
     (let biome = getBiome (biomeMap g) wx wz
      in if biome \<noteq> OCEAN \<and> biome \<noteq> BEACH \<and> isMountainRegion g wx wz then MOUNTAINS else biome)"

text \<open>
  The surface height of a column, as the loop body of \<open>buildTerrain\<close> computes it. The sum
  under the floor is exact here and a double in the source: where it lies within a rounding
  step of an integer the two floors can differ by one. The result is between 1 and 255 in
  both.
\<close>

definition columnHeight :: "TerrainGenerator \<Rightarrow> int \<Rightarrow> int \<Rightarrow> int" where
  "columnHeight g wx wz =
     (let biome = effectiveBiome g wx wz;
          noiseVal = sampleHeightNoise g wx wz;
          cfg = BIOME_HEIGHT biome;
          rnge = maxHeight cfg - minHeight cfg;
          surfaceHeight = \<lfloor>minHeight cfg + noiseVal * rnge * amplitude cfg
                            + (1 - amplitude cfg) * rnge * 0.5\<rfloor>
      in max 1 (min surfaceHeight (CHUNK_HEIGHT - 1)))"

definition buildTerrain ::
  "int \<Rightarrow> TerrainGenerator \<Rightarrow> Chunk \<Rightarrow> int \<Rightarrow> int \<Rightarrow> Chunk \<times> Heightmap" where
  "buildTerrain SEA_LEVEL g chunk worldX worldZ =
     fold (\<lambda>lx. fold (\<lambda>lz (chunk, heightmap).
        let wx = worldX + lx;
            wz = worldZ + lz;
            biome = effectiveBiome g wx wz;
            clampedHeight = columnHeight g wx wz
        in (fillColumn SEA_LEVEL chunk lx lz clampedHeight biome,
            heightmap(lx := (heightmap lx)(lz := clampedHeight))))
       [0 .. CHUNK_SIZE - 1]) [0 .. CHUNK_SIZE - 1] (chunk, (\<lambda>_ _. 0))"

definition shouldPlaceTree :: "Biome \<Rightarrow> Rng \<Rightarrow> TreeType option \<times> Rng" where
  "shouldPlaceTree biome rng =
     (let (roll, rng) = mulberry32 rng in
      case biome of
        FOREST \<Rightarrow>
          (if roll < 0.08
           then (let (r, rng) = mulberry32 rng in (Some (if r < 0.7 then OAK else BIRCH), rng))
           else (None, rng))
      | PLAINS \<Rightarrow> (if roll < 0.01 then (Some OAK, rng) else (None, rng))
      | TAIGA \<Rightarrow> (if roll < 0.06 then (Some SPRUCE, rng) else (None, rng))
      | MOUNTAINS \<Rightarrow> (if roll < 0.02 then (Some SPRUCE, rng) else (None, rng))
      | TUNDRA \<Rightarrow> (if roll < 0.005 then (Some SPRUCE, rng) else (None, rng))
      | JUNGLE \<Rightarrow> (if roll < 0.10 then (Some JUNGLE_TREE, rng) else (None, rng))
      | SWAMP \<Rightarrow> (if roll < 0.03 then (Some OAK, rng) else (None, rng))
      | _ \<Rightarrow> (None, rng))"

text \<open>\<open>TerrainGenerator.chunkRng\<close>: the seed of the per-chunk stream of the tree pass.\<close>

definition chunkRng :: "int \<Rightarrow> int \<Rightarrow> int \<Rightarrow> Rng" where
  "chunkRng seed worldX worldZ =
     (let h = toInt32 seed;
          h = h XOR toInt32 (worldX * 374761393);
          h = h XOR toInt32 (worldZ * 668265263);
          h = imul (h XOR drop_bit 13 h) 1274126177
      in h)"

definition placeTrees ::
  "int \<Rightarrow> TerrainGenerator \<Rightarrow> Chunk \<Rightarrow> Heightmap \<Rightarrow> int \<Rightarrow> int \<Rightarrow> Chunk" where
  "placeTrees SEA_LEVEL g chunk heightmap worldX worldZ =
     fst (fold (\<lambda>lx. fold (\<lambda>lz (chunk, rng).
        let wx = worldX + lx;
            wz = worldZ + lz;
            biome = effectiveBiome g wx wz;
            surfaceY = heightmap lx lz
        in if surfaceY < SEA_LEVEL \<and> biome = OCEAN then (chunk, rng)
           else
             let (treeInfo, rng) = shouldPlaceTree biome rng in
             case treeInfo of
               None \<Rightarrow> (chunk, rng)
             | Some treeType \<Rightarrow>
                 (let surfaceBlock = getBlock chunk lx surfaceY lz in
                  if surfaceBlock \<noteq> GRASS \<and> surfaceBlock \<noteq> DIRT \<and> surfaceBlock \<noteq> SNOW
                  then (chunk, rng)
                  else generateTree chunk lx (surfaceY + 1) lz treeType rng))
       [0 .. CHUNK_SIZE - 1]) [0 .. CHUNK_SIZE - 1]
       (chunk, chunkRng (gen_seed g) worldX worldZ))"

section \<open>MineshaftGenerator\<close>

definition DIRS :: "(int \<times> int) list" where
  "DIRS = [(1, 0), (-1, 0), (0, 1), (0, -1)]"

definition inBounds :: "int \<Rightarrow> int \<Rightarrow> bool" where
  "inBounds x z = (x \<ge> 0 \<and> x < CHUNK_SIZE \<and> z \<ge> 0 \<and> z < CHUNK_SIZE)"

definition placeTorch :: "Chunk \<Rightarrow> int \<Rightarrow> int \<Rightarrow> int \<Rightarrow> Chunk" where
  "placeTorch chunk x y z =
     (if inBounds x z \<and> y \<ge> 1 \<and> y < 255 then setBlock chunk x y z TORCH else chunk)"

definition isStone :: "Chunk \<Rightarrow> int \<Rightarrow> int \<Rightarrow> int \<Rightarrow> bool" where
  "isStone chunk x y z =
     (if \<not> inBounds x z \<or> y < 0 \<or> y \<ge> 256 then False else getBlock chunk x y z = STONE)"

definition isStoneOrAir :: "Chunk \<Rightarrow> int \<Rightarrow> int \<Rightarrow> int \<Rightarrow> bool" where
  "isStoneOrAir chunk x y z =
     (if \<not> inBounds x z \<or> y < 0 \<or> y \<ge> 256 then False
      else (let b = getBlock chunk x y z in b = STONE \<or> b = AIR))"

text \<open>The guarded write of the two carving loops: bedrock and water are left as they are.\<close>

definition carveCell :: "Chunk \<Rightarrow> int \<Rightarrow> int \<Rightarrow> int \<Rightarrow> Chunk" where
  "carveCell chunk x y z =
     (if y < 1 \<or> y \<ge> 255 then chunk
      else (let existing = getBlock chunk x y z in
            if existing = BEDROCK \<or> existing = WATER then chunk
            else setBlock chunk x y z AIR))"

definition carveRoom :: "Chunk \<Rightarrow> int \<Rightarrow> int \<Rightarrow> int \<Rightarrow> int \<Rightarrow> int \<Rightarrow> int \<Rightarrow> Chunk" where
  "carveRoom chunk sx sy sz w h d =
     fold (\<lambda>x. fold (\<lambda>z chunk.
        if \<not> inBounds x z then chunk
        else fold (\<lambda>dy chunk. carveCell chunk x (sy + dy) z) [0 .. h - 1] chunk)
       [sz .. sz + d - 1]) [sx .. sx + w - 1] chunk"

definition placeSupport :: "Chunk \<Rightarrow> int \<Rightarrow> int \<Rightarrow> int \<Rightarrow> int \<Rightarrow> int \<Rightarrow> Chunk" where
  "placeSupport chunk cx sy cz px pz =
     (let lx = cx - px;
          lz = cz - pz;
          chunk = (if inBounds lx lz
                   then fold (\<lambda>dy chunk. setBlock chunk lx (sy + dy) lz WOOD_OAK) [0 .. 2] chunk
                   else chunk);
          rx = cx + px;
          rz = cz + pz;
          chunk = (if inBounds rx rz
                   then fold (\<lambda>dy chunk. setBlock chunk rx (sy + dy) rz WOOD_OAK) [0 .. 2] chunk
                   else chunk)
      in fold (\<lambda>w chunk.
           let bx = cx + px * w; bz = cz + pz * w in
           if inBounds bx bz then setBlock chunk bx (sy + 2) bz PLANKS_OAK else chunk)
         [-1 .. 1] chunk)"

text \<open>One iteration of the loop of \<open>carveCorridor\<close>, after its bounds check.\<close>

definition carveCorridorStep ::
  "Chunk \<Rightarrow> int \<Rightarrow> int \<Rightarrow> int \<Rightarrow> int \<Rightarrow> int \<Rightarrow> int \<Rightarrow> Chunk" where
  "carveCorridorStep chunk cx sy cz px pz step =
     (let chunk = fold (\<lambda>w chunk.
                    let bx = cx + px * w; bz = cz + pz * w in
                    fold (\<lambda>dy chunk. carveCell chunk bx (sy + dy) bz) [0 .. 2] chunk)
                  [-1 .. 1] chunk;
          chunk = (if isStoneOrAir chunk cx (sy - 1) cz
                   then setBlock chunk cx (sy - 1) cz PLANKS_OAK else chunk);
          chunk = (if step mod 4 = 0 then placeSupport chunk cx sy cz px pz else chunk)
      in if step mod 8 = 4 \<and> step > 0
         then (let torchX = cx + px; torchZ = cz + pz in placeTorch chunk torchX (sy + 1) torchZ)
         else chunk)"

text \<open>
  \<open>carveCorridor\<close>: the loop over \<open>step\<close>, left by \<open>break\<close> at the first step whose
  three-wide section is not inside the chunk. The source passes the stream \<open>rng\<close> to the
  method, which never calls it.
\<close>

function carveCorridorFrom ::
  "Chunk \<Rightarrow> int \<Rightarrow> int \<Rightarrow> int \<Rightarrow> int \<Rightarrow> int \<Rightarrow> int \<Rightarrow> int \<Rightarrow> Chunk" where
  "carveCorridorFrom chunk sx sy sz dx dz len step =
     (if step < len then
        (let px = (if dz \<noteq> 0 then 1 else 0);
             pz = (if dx \<noteq> 0 then 1 else 0);
             cx = sx + dx * step;
             cz = sz + dz * step
         in if \<not> inBounds (cx - px) (cz - pz) \<or> \<not> inBounds (cx + px) (cz + pz) then chunk
            else carveCorridorFrom (carveCorridorStep chunk cx sy cz px pz step)
                   sx sy sz dx dz len (step + 1))
      else chunk)"
  by pat_completeness auto
termination
  by (relation "measure (\<lambda>(chunk, sx, sy, sz, dx, dz, len, step). nat (len - step))") auto

definition carveCorridor ::
  "Chunk \<Rightarrow> int \<Rightarrow> int \<Rightarrow> int \<Rightarrow> int \<Rightarrow> int \<Rightarrow> int \<Rightarrow> Chunk" where
  "carveCorridor chunk sx sy sz dx dz len = carveCorridorFrom chunk sx sy sz dx dz len 0"

definition shuffleDirs :: "Rng \<Rightarrow> (int \<times> int) list \<times> Rng" where
  "shuffleDirs rng =
     fold (\<lambda>i (arr, rng).
        let (r, rng) = mulberry32 rng;
            j = nat \<lfloor>r * (real i + 1)\<rfloor>
        in (arr[i := arr ! j, j := arr ! i], rng))
      [3, 2, 1] (DIRS, rng)"

text \<open>The loop of \<open>buildNetwork\<close> over the branches, from branch \<open>b\<close> on.\<close>

function buildBranches ::
  "Chunk \<Rightarrow> Rng \<Rightarrow> int \<Rightarrow> int \<Rightarrow> int \<Rightarrow> int \<Rightarrow> (int \<times> int) list \<Rightarrow> int \<Rightarrow> Chunk \<times> Rng" where
  "buildBranches chunk rng startX baseY startZ branchCount shuffledDirs b =
     (if b < branchCount \<and> b < int (length shuffledDirs) then
        (let (dx, dz) = shuffledDirs ! (nat b mod length shuffledDirs);
             (r, rng) = mulberry32 rng;
             len = 8 + \<lfloor>r * 16\<rfloor>;
             chunk = carveCorridor chunk startX baseY startZ dx dz len;
             (r, rng) = mulberry32 rng;
             (chunk, rng) =
               (if r < 0.4 then
                  (let endX = startX + dx * len;
                       endZ = startZ + dz * len
                   in if inBounds endX endZ then
                        (let (r, rng) = mulberry32 rng;
                             turnDir = (if dz = 0 then DIRS ! nat (2 + \<lfloor>r * 2\<rfloor>)
                                        else DIRS ! nat \<lfloor>r * 2\<rfloor>);
                             (r, rng) = mulberry32 rng;
                             subLen = 6 + \<lfloor>r * 10\<rfloor>
                         in (carveCorridor chunk endX baseY endZ (fst turnDir) (snd turnDir) subLen,
                             rng))
                      else (chunk, rng))
                else (chunk, rng))
         in buildBranches chunk rng startX baseY startZ branchCount shuffledDirs (b + 1))
      else (chunk, rng))"
  by pat_completeness auto
termination
  by (relation "measure (\<lambda>(chunk, rng, startX, baseY, startZ, branchCount, shuffledDirs, b).
                   nat (branchCount - b))") auto

definition buildNetwork :: "Chunk \<Rightarrow> Rng \<Rightarrow> int \<Rightarrow> int \<Rightarrow> int \<Rightarrow> Chunk \<times> Rng" where
  "buildNetwork chunk rng startX baseY startZ =
     (let chunk = carveRoom chunk (startX - 1) baseY (startZ - 1) 3 3 3;
          chunk = placeTorch chunk startX (baseY + 2) startZ;
          (r, rng) = mulberry32 rng;
          branchCount = 3 + \<lfloor>r * 3\<rfloor>;
          (shuffledDirs, rng) = shuffleDirs rng
      in buildBranches chunk rng startX baseY startZ branchCount shuffledDirs 0)"

text \<open>\<open>MineshaftGenerator.chunkRng\<close>.\<close>

definition chunkRng_mineshaft :: "int \<Rightarrow> int \<Rightarrow> int \<Rightarrow> Rng" where
  "chunkRng_mineshaft seed worldX worldZ =
     (let h = toInt32 (seed + 0x4d696e65);
          h = h XOR toInt32 (worldX * 492876847);
          h = h XOR toInt32 (worldZ * 715225739);
          h = imul (h XOR drop_bit 13 h) 1597334677 + 0xc3a5c85c
      in h)"

text \<open>\<open>MineshaftGenerator.generate\<close>.\<close>

definition generate_mineshaft :: "int \<Rightarrow> Chunk \<Rightarrow> int \<Rightarrow> int \<Rightarrow> Chunk" where
  "generate_mineshaft seed chunk worldX worldZ =
     (let rng = chunkRng_mineshaft seed worldX worldZ;
          (r, rng) = mulberry32 rng
      in if r > 0.03 then chunk
         else
           let (r, rng) = mulberry32 rng;
               baseY = 12 + \<lfloor>r * 30\<rfloor>;
               (r, rng) = mulberry32 rng;
               startX = 2 + \<lfloor>r * real_of_int (CHUNK_SIZE - 4)\<rfloor>;
               (r, rng) = mulberry32 rng;
               startZ = 2 + \<lfloor>r * real_of_int (CHUNK_SIZE - 4)\<rfloor>
           in if \<not> isStone chunk startX baseY startZ then chunk
              else fst (buildNetwork chunk rng startX baseY startZ))"

section \<open>StructureGenerator\<close>

text \<open>
  \<open>isFlatArea\<close>. The running minimum and maximum start at plus and minus infinity, which
  \<open>None\<close> stands for; the state of the loops is \<open>None\<close> once the method has returned false
  at a cell outside the chunk.
\<close>

definition isFlatArea :: "Heightmap \<Rightarrow> int \<Rightarrow> int \<Rightarrow> int \<Rightarrow> int \<Rightarrow> int \<Rightarrow> bool" where
  "isFlatArea heightmap startX startZ width depth maxVariation =
     (case fold (\<lambda>x. fold (\<lambda>z st.
              case st of
                None \<Rightarrow> None
              | Some (minH, maxH) \<Rightarrow>
                  if x < 0 \<or> x \<ge> CHUNK_SIZE \<or> z < 0 \<or> z \<ge> CHUNK_SIZE then None
                  else
                    let h = heightmap x z;
                        minH = (case minH of None \<Rightarrow> Some h
                                | Some m \<Rightarrow> if h < m then Some h else Some m);
                        maxH = (case maxH of None \<Rightarrow> Some h
                                | Some m \<Rightarrow> if h > m then Some h else Some m)
                    in Some (minH, maxH))
             [startZ .. startZ + depth - 1]) [startX .. startX + width - 1] (Some (None, None))
      of None \<Rightarrow> False
       | Some (Some minH, Some maxH) \<Rightarrow> maxH - minH \<le> maxVariation
       | Some _ \<Rightarrow> True)"

text \<open>The blocks of the desert well, written once the heightmap has passed \<open>isFlatArea\<close>.\<close>

definition buildDesertWell :: "Chunk \<Rightarrow> Heightmap \<Rightarrow> int \<Rightarrow> int \<Rightarrow> Chunk" where
  "buildDesertWell chunk heightmap sx sz =
     (let W = 5;
          baseY = heightmap (sx + 2) (sz + 2);
          chunk = fold (\<lambda>x. fold (\<lambda>z chunk.
                     let chunk = setBlock chunk x (baseY - 1) z SAND_STONE
                     in setBlock chunk x baseY z WATER)
                    [sz + 1 .. sz + 3]) [sx + 1 .. sx + 3] chunk;
          chunk = fold (\<lambda>x. fold (\<lambda>z chunk.
                     let inner = (x > sx \<and> x < sx + W - 1 \<and> z > sz \<and> z < sz + W - 1)
                     in if \<not> inner then setBlock chunk x baseY z SAND_STONE else chunk)
                    [sz .. sz + W - 1]) [sx .. sx + W - 1] chunk
      in fold (\<lambda>x. fold (\<lambda>z chunk.
            let inner = (x > sx \<and> x < sx + W - 1 \<and> z > sz \<and> z < sz + W - 1);
                chunk = (if \<not> inner then setBlock chunk x (baseY + 1) z SAND_STONE else chunk)
            in setBlock chunk x (baseY + 2) z AIR)
           [sz .. sz + W - 1]) [sx .. sx + W - 1] chunk)"

definition tryPlaceDesertWell :: "Chunk \<Rightarrow> Heightmap \<Rightarrow> Rng \<Rightarrow> bool \<times> Chunk \<times> Rng" where
  "tryPlaceDesertWell chunk heightmap rng =
     (let W = 5;
          (r, rng) = mulberry32 rng;
          sx = 3 + \<lfloor>r * real_of_int (CHUNK_SIZE - W - 6)\<rfloor>;
          (r, rng) = mulberry32 rng;
          sz = 3 + \<lfloor>r * real_of_int (CHUNK_SIZE - W - 6)\<rfloor>
      in if \<not> isFlatArea heightmap sx sz W W 1 then (False, chunk, rng)
         else (True, buildDesertWell chunk heightmap sx sz, rng))"

text \<open>The blocks of the cabin, written once the heightmap has passed \<open>isFlatArea\<close>.\<close>

definition buildCabin :: "Chunk \<Rightarrow> Heightmap \<Rightarrow> int \<Rightarrow> int \<Rightarrow> Chunk" where
  "buildCabin chunk heightmap sx sz =
     (let W = 7;
          D = 5;
          baseY = heightmap (sx + 3) (sz + 2);
          chunk = fold (\<lambda>x. fold (\<lambda>z chunk. setBlock chunk x baseY z COBBLESTONE)
                    [sz .. sz + D - 1]) [sx .. sx + W - 1] chunk;
          chunk = fold (\<lambda>dy. fold (\<lambda>x. fold (\<lambda>z chunk.
                     let y = baseY + dy;
                         onEdge = (x = sx \<or> x = sx + W - 1 \<or> z = sz \<or> z = sz + D - 1);
                         isCorner = ((x = sx \<or> x = sx + W - 1) \<and> (z = sz \<or> z = sz + D - 1))
                     in if isCorner then setBlock chunk x y z WOOD_OAK
                        else if onEdge then
                          (let isDoor = (z = sz + D - 1 \<and> x = sx + 3 \<and> dy \<le> 2);
                               isWindow = (dy = 2 \<and> (x = sx \<or> x = sx + W - 1)
                                           \<and> z > sz \<and> z < sz + D - 1)
                           in if isDoor then setBlock chunk x y z AIR
                              else if isWindow then setBlock chunk x y z GLASS
                              else setBlock chunk x y z PLANKS_OAK)
                        else setBlock chunk x y z AIR)
                    [sz .. sz + D - 1]) [sx .. sx + W - 1]) [1 .. 3] chunk;
          chunk = fold (\<lambda>x. fold (\<lambda>z chunk. setBlock chunk x (baseY + 4) z PLANKS_OAK)
                    [sz .. sz + D - 1]) [sx .. sx + W - 1] chunk;
          chunk = fold (\<lambda>x. fold (\<lambda>z chunk. setBlock chunk x (baseY + 5) z AIR)
                    [sz .. sz + D - 1]) [sx .. sx + W - 1] chunk;
          chunk = setBlock chunk (sx + 3) (baseY + 2) (sz + 1) TORCH;
          chunk = setBlock chunk (sx + 1) (baseY + 1) (sz + 1) CRAFTING_TABLE
      in setBlock chunk (sx + 2) (baseY + 1) (sz + 1) FURNACE)"

definition tryPlaceCabin :: "Chunk \<Rightarrow> Heightmap \<Rightarrow> Rng \<Rightarrow> bool \<times> Chunk \<times> Rng" where
  "tryPlaceCabin chunk heightmap rng =
     (let W = 7;
          D = 5;
          (r, rng) = mulberry32 rng;
          sx = 2 + \<lfloor>r * real_of_int (CHUNK_SIZE - W - 4)\<rfloor>;
          (r, rng) = mulberry32 rng;
          sz = 2 + \<lfloor>r * real_of_int (CHUNK_SIZE - D - 4)\<rfloor>
      in if \<not> isFlatArea heightmap sx sz W D 2 then (False, chunk, rng)
         else (True, buildCabin chunk heightmap sx sz, rng))"

definition buildDungeon :: "Chunk \<Rightarrow> int \<Rightarrow> int \<Rightarrow> int \<Rightarrow> int \<Rightarrow> int \<Rightarrow> Chunk" where
  "buildDungeon chunk sx sy sz W H =
     (let chunk = fold (\<lambda>x. fold (\<lambda>z. fold (\<lambda>dy chunk.
                     let y = sy + dy in
                     if y \<ge> CHUNK_HEIGHT then chunk
                     else
                       let isFloor = (dy = 0);
                           isCeiling = (dy = H - 1);
                           isWall = (x = sx \<or> x = sx + W - 1 \<or> z = sz \<or> z = sz + W - 1)
                       in if isFloor \<or> isCeiling \<or> isWall then setBlock chunk x y z COBBLESTONE
                          else setBlock chunk x y z AIR)
                    [0 .. H - 1]) [sz .. sz + W - 1]) [sx .. sx + W - 1] chunk;
          midX = sx + W div 2;
          midZ = sz + W div 2;
          torchY = sy + 2;
          chunk = setBlock chunk midX torchY (sz + 1) TORCH;
          chunk = setBlock chunk midX torchY (sz + W - 2) TORCH;
          chunk = setBlock chunk (sx + 1) torchY midZ TORCH
      in setBlock chunk (sx + W - 2) torchY midZ TORCH)"

text \<open>\<open>tryPlaceDungeon\<close>: the loop over the attempts, from attempt \<open>attempt\<close> on.\<close>

function tryPlaceDungeonFrom :: "Chunk \<Rightarrow> Rng \<Rightarrow> int \<Rightarrow> bool \<times> Chunk \<times> Rng" where
  "tryPlaceDungeonFrom chunk rng attempt =
     (if attempt < 5 then
        (let W = 7;
             H = 5;
             (r, rng) = mulberry32 rng;
             sx = 2 + \<lfloor>r * real_of_int (CHUNK_SIZE - W - 2)\<rfloor>;
             (r, rng) = mulberry32 rng;
             sz = 2 + \<lfloor>r * real_of_int (CHUNK_SIZE - W - 2)\<rfloor>;
             (r, rng) = mulberry32 rng;
             sy = 12 + \<lfloor>r * 28\<rfloor>
         in if getBlock chunk (sx + 3) (sy + 2) (sz + 3) \<noteq> STONE
              then tryPlaceDungeonFrom chunk rng (attempt + 1)
            else if getBlock chunk (sx + 3) (sy + H) (sz + 3) \<noteq> STONE
              then tryPlaceDungeonFrom chunk rng (attempt + 1)
            else (True, buildDungeon chunk sx sy sz W H, rng))
      else (False, chunk, rng))"
  by pat_completeness auto
termination
  by (relation "measure (\<lambda>(chunk, rng, attempt). nat (5 - attempt))") auto

definition tryPlaceDungeon :: "Chunk \<Rightarrow> Rng \<Rightarrow> bool \<times> Chunk \<times> Rng" where
  "tryPlaceDungeon chunk rng = tryPlaceDungeonFrom chunk rng 0"

text \<open>\<open>StructureGenerator.chunkRng\<close>, the seed of the decoration stream, and \<open>structureRng\<close>.\<close>

definition chunkRng_structure :: "int \<Rightarrow> int \<Rightarrow> int \<Rightarrow> Rng" where
  "chunkRng_structure seed worldX worldZ =
     (let h = toInt32 seed;
          h = h XOR toInt32 (worldX * 374761393);
          h = h XOR toInt32 (worldZ * 668265263);
          h = imul (h XOR drop_bit 13 h) 1274126177 + 0xa5b3c2d1
      in h)"

definition structureRng :: "int \<Rightarrow> int \<Rightarrow> int \<Rightarrow> Rng" where
  "structureRng seed worldX worldZ =
     (let h = toInt32 (seed + 0x7f3a9c1d);
          h = h XOR toInt32 (worldX * 597399067);
          h = h XOR toInt32 (worldZ * 824521439);
          h = imul (h XOR drop_bit 13 h) 1946318589 + 0xb7e15163
      in h)"

text \<open>
  The body of \<open>placeStructures\<close> after its first line, which makes the stream \<open>structRng\<close>.
  The method receives the decoration stream \<open>rng\<close> of \<open>generate\<close>; the state in which it
  leaves that stream is returned with the chunk.
\<close>

definition placeStructuresFrom ::
  "Chunk \<Rightarrow> Heightmap \<Rightarrow> BiomeMap \<Rightarrow> int \<Rightarrow> int \<Rightarrow> Rng \<Rightarrow> Rng \<Rightarrow> Chunk \<times> Rng" where
  "placeStructuresFrom chunk heightmap bm worldX worldZ rng structRng =
     (let centerBiome = getBiome bm (worldX + 8) (worldZ + 8);
          (placed, chunk, structRng) =
            (if centerBiome = DESERT then
               (let (r, structRng) = mulberry32 structRng in
                if r < 0.03 then tryPlaceDesertWell chunk heightmap structRng
                else (False, chunk, structRng))
             else (False, chunk, structRng))
      in if placed then (chunk, rng)
         else
           let (placed, chunk, structRng) =
                 (if centerBiome = PLAINS \<or> centerBiome = FOREST then
                    (let (r, structRng) = mulberry32 structRng in
                     if r < 0.02 then tryPlaceCabin chunk heightmap structRng
                     else (False, chunk, structRng))
                  else (False, chunk, structRng))
           in if placed then (chunk, rng)
              else
                let (r, structRng) = mulberry32 structRng in
                if r < 0.05 then
                  (let (placed, chunk, structRng) = tryPlaceDungeon chunk structRng
                   in (chunk, rng))
                else (chunk, rng))"

definition placeStructures ::
  "int \<Rightarrow> Chunk \<Rightarrow> Heightmap \<Rightarrow> BiomeMap \<Rightarrow> int \<Rightarrow> int \<Rightarrow> Rng \<Rightarrow> Chunk \<times> Rng" where
  "placeStructures seed chunk heightmap bm worldX worldZ rng =
     (let structRng = structureRng seed worldX worldZ
      in placeStructuresFrom chunk heightmap bm worldX worldZ rng structRng)"

definition decoratePlains :: "Chunk \<Rightarrow> int \<Rightarrow> int \<Rightarrow> int \<Rightarrow> Rng \<Rightarrow> Chunk \<times> Rng" where
  "decoratePlains chunk lx y lz rng =
     (let (roll, rng) = mulberry32 rng in
      if roll < 0.30 then (setBlock chunk lx y lz TALL_GRASS, rng)
      else if roll < 0.33 then
        (let (r, rng) = mulberry32 rng
         in (setBlock chunk lx y lz (if r < 0.5 then FLOWER_RED else FLOWER_YELLOW), rng))
      else (chunk, rng))"

definition decorateForest :: "Chunk \<Rightarrow> int \<Rightarrow> int \<Rightarrow> int \<Rightarrow> Rng \<Rightarrow> Chunk \<times> Rng" where
  "decorateForest chunk lx y lz rng =
     (let (roll, rng) = mulberry32 rng in
      if roll < 0.35 then (setBlock chunk lx y lz TALL_GRASS, rng)
      else if roll < 0.43 then
        (let (r, rng) = mulberry32 rng
         in (setBlock chunk lx y lz (if r < 0.5 then FLOWER_RED else FLOWER_YELLOW), rng))
      else (chunk, rng))"

definition hasClearNeighbours :: "Chunk \<Rightarrow> int \<Rightarrow> int \<Rightarrow> int \<Rightarrow> bool" where
  "hasClearNeighbours chunk lx y lz =
     fold (\<lambda>(nx, nz) ok.
        if \<not> ok then False
        else if nx < 0 \<or> nx \<ge> CHUNK_SIZE \<or> nz < 0 \<or> nz \<ge> CHUNK_SIZE then True
        else if getBlock chunk nx y nz \<noteq> AIR then False
        else True)
      [(lx - 1, lz), (lx + 1, lz), (lx, lz - 1), (lx, lz + 1)] True"

text \<open>The loop of the cactus leaves by \<open>break\<close> at the first \<open>dy\<close> with \<open>y + dy \<ge> 256\<close>; the
  condition holds for every later \<open>dy\<close> as well.\<close>

definition decorateDesert :: "Chunk \<Rightarrow> int \<Rightarrow> int \<Rightarrow> int \<Rightarrow> Rng \<Rightarrow> Chunk \<times> Rng" where
  "decorateDesert chunk lx y lz rng =
     (let (r, rng) = mulberry32 rng in
      if r \<ge> 0.02 then (chunk, rng)
      else if \<not> hasClearNeighbours chunk lx y lz then (chunk, rng)
      else
        let (r, rng) = mulberry32 rng;
            height = 2 + \<lfloor>r * 2\<rfloor>
        in (fold (\<lambda>dy chunk. if y + dy \<ge> 256 then chunk else setBlock chunk lx (y + dy) lz CACTUS)
              [0 .. height - 1] chunk, rng))"

definition decorateTaiga :: "Chunk \<Rightarrow> int \<Rightarrow> int \<Rightarrow> int \<Rightarrow> Rng \<Rightarrow> Chunk \<times> Rng" where
  "decorateTaiga chunk lx y lz rng =
     (let (r, rng) = mulberry32 rng in
      if r < 0.15 then (setBlock chunk lx y lz TALL_GRASS, rng) else (chunk, rng))"

definition decorateJungle :: "Chunk \<Rightarrow> int \<Rightarrow> int \<Rightarrow> int \<Rightarrow> Rng \<Rightarrow> Chunk \<times> Rng" where
  "decorateJungle chunk lx y lz rng =
     (let (roll, rng) = mulberry32 rng in
      if roll < 0.40 then (setBlock chunk lx y lz TALL_GRASS, rng)
      else if roll < 0.50 then
        (let (r, rng) = mulberry32 rng
         in (setBlock chunk lx y lz (if r < 0.6 then FLOWER_RED else FLOWER_YELLOW), rng))
      else (chunk, rng))"

definition decorateSwamp :: "Chunk \<Rightarrow> int \<Rightarrow> int \<Rightarrow> int \<Rightarrow> Rng \<Rightarrow> Chunk \<times> Rng" where
  "decorateSwamp chunk lx y lz rng =
     (let (roll, rng) = mulberry32 rng in
      if roll < 0.25 then (setBlock chunk lx y lz TALL_GRASS, rng)
      else if roll < 0.28 then (setBlock chunk lx y lz FLOWER_RED, rng)
      else (chunk, rng))"

definition decorateTundra :: "Chunk \<Rightarrow> int \<Rightarrow> int \<Rightarrow> int \<Rightarrow> Rng \<Rightarrow> Chunk \<times> Rng" where
  "decorateTundra chunk lx y lz rng =
     (let (r, rng) = mulberry32 rng in
      if r < 0.02 then (setBlock chunk lx y lz FLOWER_YELLOW, rng) else (chunk, rng))"

text \<open>One iteration of the two loops of phase 2 of \<open>generate\<close>: the column \<open>(lx, lz)\<close>.\<close>

definition decorateColumn ::
  "Heightmap \<Rightarrow> BiomeMap \<Rightarrow> int \<Rightarrow> int \<Rightarrow> int \<Rightarrow> int \<Rightarrow> Chunk \<times> Rng \<Rightarrow> Chunk \<times> Rng" where
  "decorateColumn heightmap bm worldX worldZ lx lz st =
     (let (chunk, rng) = st;
          wx = worldX + lx;
          wz = worldZ + lz;
          surfaceY = heightmap lx lz;
          biome = getBiome bm wx wz;
          placeY = surfaceY + 1
      in if placeY \<ge> 256 then (chunk, rng)
         else if getBlock chunk lx placeY lz \<noteq> AIR then (chunk, rng)
         else (case biome of
                 PLAINS \<Rightarrow> decoratePlains chunk lx placeY lz rng
               | FOREST \<Rightarrow> decorateForest chunk lx placeY lz rng
               | DESERT \<Rightarrow> decorateDesert chunk lx placeY lz rng
               | TAIGA \<Rightarrow> decorateTaiga chunk lx placeY lz rng
               | TUNDRA \<Rightarrow> decorateTundra chunk lx placeY lz rng
               | JUNGLE \<Rightarrow> decorateJungle chunk lx placeY lz rng
               | SWAMP \<Rightarrow> decorateSwamp chunk lx placeY lz rng
               | _ \<Rightarrow> (chunk, rng)))"

text \<open>Phase 2 of \<open>generate\<close>: the decoration of every column, with the stream \<open>rng\<close>.\<close>

definition decorateSurface ::
  "Chunk \<Rightarrow> Heightmap \<Rightarrow> BiomeMap \<Rightarrow> int \<Rightarrow> int \<Rightarrow> Rng \<Rightarrow> Chunk \<times> Rng" where
  "decorateSurface chunk heightmap bm worldX worldZ rng =
     fold (\<lambda>lx. fold (\<lambda>lz. decorateColumn heightmap bm worldX worldZ lx lz)
       [0 .. CHUNK_SIZE - 1]) [0 .. CHUNK_SIZE - 1] (chunk, rng)"

text \<open>
  \<open>StructureGenerator.generate\<close>, with the stream of the structure rolls as a parameter, and
  as the source has it, where \<open>placeStructures\<close> seeds that stream with \<open>structureRng\<close>.
\<close>

definition generateFrom_structure ::
  "int \<Rightarrow> Chunk \<Rightarrow> Heightmap \<Rightarrow> BiomeMap \<Rightarrow> int \<Rightarrow> int \<Rightarrow> Rng \<Rightarrow> Chunk" where
  "generateFrom_structure seed chunk heightmap bm worldX worldZ structRng =
     (let rng = chunkRng_structure seed worldX worldZ;
          (chunk, rng) = placeStructuresFrom chunk heightmap bm worldX worldZ rng structRng
      in fst (decorateSurface chunk heightmap bm worldX worldZ rng))"

definition generate_structure ::
  "int \<Rightarrow> Chunk \<Rightarrow> Heightmap \<Rightarrow> BiomeMap \<Rightarrow> int \<Rightarrow> int \<Rightarrow> Chunk" where
  "generate_structure seed chunk heightmap bm worldX worldZ =
     (let rng = chunkRng_structure seed worldX worldZ;
          (chunk, rng) = placeStructures seed chunk heightmap bm worldX worldZ rng
      in fst (decorateSurface chunk heightmap bm worldX worldZ rng))"

section \<open>Auxiliary definitions for the statements\<close>

text \<open>The block that the chain of conditions of \<open>fillColumn\<close> writes at height \<open>y\<close>.\<close>

definition columnBlock :: "int \<Rightarrow> int \<Rightarrow> Biome \<Rightarrow> int \<Rightarrow> BlockType" where
  "columnBlock SEA_LEVEL surfaceHeight biome y =
     (if y = 0 then BEDROCK
      else if y < surfaceHeight - 4 then STONE
      else if y < surfaceHeight then getSubSurfaceBlock biome
      else if y = surfaceHeight then getSurfaceBlock biome
      else if y \<le> SEA_LEVEL \<and> biome = OCEAN then WATER
      else if y \<le> SEA_LEVEL \<and> surfaceHeight < SEA_LEVEL then WATER
      else AIR)"

text \<open>
  A generator for concrete runs: warm and very wet everywhere (the biome is \<open>OCEAN\<close>), all
  height noise zero, no mountains, and cave and ore passes that change nothing.
\<close>

definition oceanGenerator :: TerrainGenerator where
  "oceanGenerator =
     \<lparr>gen_seed = 42, biomeMap = constBiomeMap 0.5 0.9,
      caveGenerator = (\<lambda>chunk _ _. chunk), oreGenerator = (\<lambda>chunk _ _. chunk),
      noiseOctaves = replicate 6 (\<lambda>_ _. 0), mountainNoise = (\<lambda>_ _. -1)\<rparr>"

text \<open>
  The flatness precondition in the words of the spec: the columns of a structure's
  footprint all lie inside the chunk, and the largest surface height over the footprint
  exceeds the smallest by at most the tolerance.
\<close>

definition footprint :: "int \<Rightarrow> int \<Rightarrow> int \<Rightarrow> int \<Rightarrow> (int \<times> int) set" where
  "footprint sx sz w d = {sx .. sx + w - 1} \<times> {sz .. sz + d - 1}"

definition flatFootprint :: "Heightmap \<Rightarrow> int \<Rightarrow> int \<Rightarrow> int \<Rightarrow> int \<Rightarrow> int \<Rightarrow> bool" where
  "flatFootprint heightmap sx sz w d tolerance =
     ((\<forall>(x, z) \<in> footprint sx sz w d. 0 \<le> x \<and> x < CHUNK_SIZE \<and> 0 \<le> z \<and> z < CHUNK_SIZE)
      \<and> Max ((\<lambda>(x, z). heightmap x z) ` footprint sx sz w d)
          - Min ((\<lambda>(x, z). heightmap x z) ` footprint sx sz w d) \<le> tolerance)"

text \<open>The running minimum and maximum of \<open>isFlatArea\<close>, and one step of its loops.\<close>

definition mnOf :: "int set \<Rightarrow> int option" where
  "mnOf S = (if S = {} then None else Some (Min S))"

definition mxOf :: "int set \<Rightarrow> int option" where
  "mxOf S = (if S = {} then None else Some (Max S))"

definition flatStep :: "Heightmap \<Rightarrow> int \<times> int \<Rightarrow> (int option \<times> int option) option
    \<Rightarrow> (int option \<times> int option) option" where
  "flatStep heightmap = (\<lambda>(x, z) st.
              case st of
                None \<Rightarrow> None
              | Some (minH, maxH) \<Rightarrow>
                  if x < 0 \<or> x \<ge> CHUNK_SIZE \<or> z < 0 \<or> z \<ge> CHUNK_SIZE then None
                  else
                    let h = heightmap x z;
                        minH = (case minH of None \<Rightarrow> Some h
                                | Some m \<Rightarrow> if h < m then Some h else Some m);
                        maxH = (case maxH of None \<Rightarrow> Some h
                                | Some m \<Rightarrow> if h > m then Some h else Some m)
                    in Some (minH, maxH))"

text \<open>
  The candidate position \<open>(sx, sy, sz)\<close> that one attempt of \<open>tryPlaceDungeon\<close> draws from the
  stream in state \<open>rng\<close>; the candidate of attempt \<open>k\<close> (each draw advances the state by the
  constant of \<open>mulberry32\<close>, each attempt draws three times); the two cells an attempt
  verifies; and the dungeon of the source's dimensions built at a candidate.
\<close>

definition dungeonCandidate :: "Rng \<Rightarrow> int \<times> int \<times> int" where
  "dungeonCandidate rng =
     (let W = 7;
          (r, rng) = mulberry32 rng;
          sx = 2 + \<lfloor>r * real_of_int (CHUNK_SIZE - W - 2)\<rfloor>;
          (r, rng) = mulberry32 rng;
          sz = 2 + \<lfloor>r * real_of_int (CHUNK_SIZE - W - 2)\<rfloor>;
          (r, rng) = mulberry32 rng;
          sy = 12 + \<lfloor>r * 28\<rfloor>
      in (sx, sy, sz))"

definition candidateAt :: "Rng \<Rightarrow> nat \<Rightarrow> int \<times> int \<times> int" where
  "candidateAt rng k = dungeonCandidate (rng + of_nat (3 * k) * 0x6d2b79f5)"

definition dungeonProbes :: "Chunk \<Rightarrow> int \<times> int \<times> int \<Rightarrow> bool" where
  "dungeonProbes chunk = (\<lambda>(sx, sy, sz).
     getBlock chunk (sx + 3) (sy + 2) (sz + 3) = STONE
     \<and> getBlock chunk (sx + 3) (sy + 5) (sz + 3) = STONE)"

definition buildDungeonAt :: "Chunk \<Rightarrow> int \<times> int \<times> int \<Rightarrow> Chunk" where
  "buildDungeonAt chunk = (\<lambda>(sx, sy, sz). buildDungeon chunk sx sy sz 7 5)"

text \<open>What one call of a builder may leave: the chunk itself or one structure on it.\<close>

definition oneStructure :: "Chunk \<Rightarrow> Heightmap \<Rightarrow> Chunk \<Rightarrow> bool" where
  "oneStructure chunk hm result =
     ((\<exists>sx sz. flatFootprint hm sx sz 5 5 1 \<and> result = buildDesertWell chunk hm sx sz)
      \<or> (\<exists>sx sz. flatFootprint hm sx sz 7 5 2 \<and> result = buildCabin chunk hm sx sz)
      \<or> (\<exists>c. dungeonProbes chunk c \<and> result = buildDungeonAt chunk c))"

text \<open>
  Inputs for concrete runs: a chunk of air with stone only at the two cells that the first
  candidate drawn from stream state 0 probes, a flat heightmap and a sloping one.
\<close>

definition dungeonTestChunk :: Chunk where
  "dungeonTestChunk = setBlock (setBlock (emptyChunk 0 0) 6 20 5 STONE) 6 23 5 STONE"

definition flatHeightmap :: Heightmap where
  "flatHeightmap = (\<lambda>_ _. 64)"

definition slopeHeightmap :: Heightmap where
  "slopeHeightmap = (\<lambda>x _. 60 + 3 * x)"

text \<open>
  A chunk of stone whose cell \<open>(9, 41, 12)\<close> holds water: an underground pocket beside the
  course of a corridor.
\<close>

definition waterStoneChunk :: Chunk where
  "waterStoneChunk =
     setBlock \<lparr>chunk_cx = 0, chunk_cz = 0,
               blocks = (\<lambda>(x, y, z). if chunkInBounds x y z then STONE else AIR)\<rparr>
       9 41 12 WATER"

text \<open>A chunk of air with one stone block at \<open>(9, 66, 8)\<close>: a ledge beside the place of a tree.\<close>

definition stoneLedgeChunk :: Chunk where
  "stoneLedgeChunk = setBlock (emptyChunk 0 0) 9 66 8 STONE"

text \<open>A biome map that is plains everywhere: temperature 0.5 and moisture 0.4.\<close>

definition plainsBiomeMap :: BiomeMap where
  "plainsBiomeMap = \<lparr>temperatureNoise = (\<lambda>_ _. 0), moistureNoise = (\<lambda>_ _. - 0.2)\<rparr>"

section \<open>Properties of the block registry\<close>

lemma has_BlockRegistry_AIR: "has BlockRegistry AIR"
  by (simp add: has_def BlockRegistry_def register_def)

lemma not_has_BlockRegistry_COUNT: "\<not> has BlockRegistry COUNT"
  by (simp add: has_def BlockRegistry_def register_def)

lemma get_unregistered: "\<not> has reg t \<Longrightarrow> get reg t = Inl (UnknownBlockType t)"
  by (simp add: has_def get_def)

lemma isSolid_cases:
  "isSolid reg t = Inr (if t = AIR then False else case reg t of None \<Rightarrow> True | Some b \<Rightarrow> solid b)"
  by (simp add: isSolid_def has_def get_def split: option.splits)

lemma isTransparent_cases:
  "isTransparent reg t =
     Inr (if t = AIR then True else case reg t of None \<Rightarrow> False | Some b \<Rightarrow> transparent b)"
  by (simp add: isTransparent_def has_def get_def split: option.splits)

text \<open>
  C8, as stated, fails at the shipped registry: the sentinel tag \<open>COUNT\<close> is not registered,
  and the metadata lookups \<open>isSolid\<close> and \<open>isTransparent\<close> on it return a default instead of
  raising.
\<close>

theorem C8_lookup_raises_counterexample:
  "\<not> has BlockRegistry COUNT
   \<and> isSolid BlockRegistry COUNT = Inr True
   \<and> isTransparent BlockRegistry COUNT = Inr False"
  using not_has_BlockRegistry_COUNT by (simp add: isSolid_cases isTransparent_cases has_def)

text \<open>
  C8 (amended): for every tag that is not registered, the lookups \<open>get\<close> and \<open>getTexture\<close>
  raise the unknown-block-type error; \<open>isSolid\<close> and \<open>isTransparent\<close> do not raise on such a
  tag but return a default value (solid and opaque, unless the tag is \<open>AIR\<close>).
\<close>

theorem C8_unregistered_lookup:
  assumes "\<not> has reg t"
  shows "get reg t = Inl (UnknownBlockType t)
       \<and> getTexture reg t f = Inl (UnknownBlockType t)
       \<and> isSolid reg t = Inr (t \<noteq> AIR)
       \<and> isTransparent reg t = Inr (t = AIR)"
proof -
  from assms have none: "reg t = None"
    by (simp add: has_def)
  have g: "get reg t = Inl (UnknownBlockType t)"
    using assms by (rule get_unregistered)
  have tx: "getTexture reg t f = Inl (UnknownBlockType t)"
    by (simp add: getTexture_def g)
  have so: "isSolid reg t = Inr (t \<noteq> AIR)"
    by (simp add: isSolid_cases none)
  have tr: "isTransparent reg t = Inr (t = AIR)"
    by (simp add: isTransparent_cases none)
  from g tx so tr show ?thesis by simp
qed

theorem C8_unregistered_lookup_witness:
  "\<not> has BlockRegistry COUNT
   \<and> get BlockRegistry COUNT = Inl (UnknownBlockType COUNT)
   \<and> getTexture BlockRegistry COUNT FaceSide = Inl (UnknownBlockType COUNT)
   \<and> isSolid BlockRegistry COUNT = Inr True
   \<and> isTransparent BlockRegistry COUNT = Inr False"
  using C8_unregistered_lookup [OF not_has_BlockRegistry_COUNT, of FaceSide]
    not_has_BlockRegistry_COUNT by simp

text \<open>
  C10: the solidity and transparency queries never raise, whatever the registry holds;
  \<open>AIR\<close> is not solid and is transparent; a tag that is not registered is reported solid
  and opaque (in the shipped registry \<open>AIR\<close> is registered, so this covers every
  unregistered tag; in any registry it covers every unregistered tag but \<open>AIR\<close>).
\<close>

theorem C10_solidity_queries_total:
  "isSolid reg AIR = Inr False \<and> isTransparent reg AIR = Inr True
   \<and> (\<exists>b. isSolid reg t = Inr b) \<and> (\<exists>b. isTransparent reg t = Inr b)
   \<and> (\<not> has reg t \<and> t \<noteq> AIR \<longrightarrow> isSolid reg t = Inr True \<and> isTransparent reg t = Inr False)
   \<and> (\<not> has BlockRegistry t \<longrightarrow>
        isSolid BlockRegistry t = Inr True \<and> isTransparent BlockRegistry t = Inr False)"
proof -
  have air: "isSolid reg AIR = Inr False \<and> isTransparent reg AIR = Inr True"
    by (simp add: isSolid_cases isTransparent_cases)
  have tot: "(\<exists>b. isSolid reg t = Inr b) \<and> (\<exists>b. isTransparent reg t = Inr b)"
    by (simp add: isSolid_cases isTransparent_cases)
  have unreg: "isSolid r t = Inr True \<and> isTransparent r t = Inr False"
    if "\<not> has r t" "t \<noteq> AIR" for r
    using that by (simp add: isSolid_cases isTransparent_cases has_def)
  have shipped: "t \<noteq> AIR" if "\<not> has BlockRegistry t"
    using that has_BlockRegistry_AIR by auto
  from air tot unreg shipped show ?thesis by blast
qed

theorem C10_solidity_queries_total_witness:
  "\<not> has BlockRegistry COUNT
   \<and> isSolid BlockRegistry COUNT = Inr True \<and> isTransparent BlockRegistry COUNT = Inr False
   \<and> isSolid BlockRegistry AIR = Inr False \<and> isTransparent BlockRegistry AIR = Inr True"
  using C10_solidity_queries_total [of BlockRegistry COUNT] not_has_BlockRegistry_COUNT
  by simp


section \<open>The biome decision table\<close>

lemma getTemperature_const: "getTemperature (constBiomeMap t m) wx wz = t"
  by (simp add: constBiomeMap_def getTemperature_def)

lemma getMoisture_const: "getMoisture (constBiomeMap t m) wx wz = m"
  by (simp add: constBiomeMap_def getMoisture_def)

text \<open>
  C4, as stated, fails on the moisture axis: at temperature 0.5 the moisture threshold 0.55
  separates \<open>PLAINS\<close> (below) from \<open>FOREST\<close> (above), and the value 0.55 itself falls into the
  lower band.
\<close>

theorem C4_threshold_counterexample:
  "getTemperature (constBiomeMap 0.5 0.55) 0 0 = 0.5
   \<and> getMoisture (constBiomeMap 0.5 0.55) 0 0 = 0.55
   \<and> getBiome (constBiomeMap 0.5 0.55) 0 0 = PLAINS
   \<and> getBiome (constBiomeMap 0.5 0.54) 0 0 = PLAINS
   \<and> getBiome (constBiomeMap 0.5 0.56) 0 0 = FOREST"
  by (simp add: getBiome_def getTemperature_const getMoisture_const)

text \<open>
  C4 (amended): every pair of temperature and moisture maps to exactly one biome, the one
  whose band holds the pair. The temperature bands (tests \<open>temp < c\<close>) are closed on the
  lower bound and open on the upper; the moisture bands (tests \<open>moist > c\<close>) are open on the
  lower bound and closed on the upper, so a moisture exactly at a threshold falls into the
  lower band. The table never returns \<open>MOUNTAINS\<close>.
\<close>

theorem C4_biome_table:
  fixes bm :: BiomeMap and wx wz :: int
  defines "t \<equiv> getTemperature bm wx wz" and "m \<equiv> getMoisture bm wx wz"
  shows "(getBiome bm wx wz = OCEAN \<longleftrightarrow> 0.85 < m)
    \<and> (getBiome bm wx wz = BEACH \<longleftrightarrow> 0.78 < m \<and> m \<le> 0.85)
    \<and> (getBiome bm wx wz = TUNDRA \<longleftrightarrow> m \<le> 0.78 \<and> (t < 0.2 \<or> (t < 0.45 \<and> m \<le> 0.5)))
    \<and> (getBiome bm wx wz = TAIGA \<longleftrightarrow> 0.2 \<le> t \<and> t < 0.45 \<and> 0.5 < m \<and> m \<le> 0.78)
    \<and> (getBiome bm wx wz = SWAMP \<longleftrightarrow> 0.45 \<le> t \<and> t < 0.7 \<and> 0.68 < m \<and> m \<le> 0.78)
    \<and> (getBiome bm wx wz = FOREST \<longleftrightarrow> 0.45 \<le> t \<and> t < 0.7 \<and> 0.55 < m \<and> m \<le> 0.68)
    \<and> (getBiome bm wx wz = JUNGLE \<longleftrightarrow> 0.7 \<le> t \<and> 0.55 < m \<and> m \<le> 0.78)
    \<and> (getBiome bm wx wz = DESERT \<longleftrightarrow> 0.7 \<le> t \<and> m \<le> 0.35)
    \<and> (getBiome bm wx wz = PLAINS \<longleftrightarrow>
          (0.45 \<le> t \<and> t < 0.7 \<and> m \<le> 0.55) \<or> (0.7 \<le> t \<and> 0.35 < m \<and> m \<le> 0.55))
    \<and> getBiome bm wx wz \<noteq> MOUNTAINS"
  unfolding t_def m_def getBiome_def Let_def
  by (simp; linarith)

theorem C4_biome_table_witness:
  "getBiome (constBiomeMap 0.2 0.78) 0 0 = TAIGA \<and> getBiome (constBiomeMap 0.7 0.35) 0 0 = DESERT"
  using C4_biome_table [of "constBiomeMap 0.2 0.78" 0 0] C4_biome_table [of "constBiomeMap 0.7 0.35" 0 0]
  by (simp add: getTemperature_const getMoisture_const)

section \<open>Surface fill\<close>

lemma fold_invariant:
  "P s \<Longrightarrow> (\<And>x s. x \<in> set xs \<Longrightarrow> P s \<Longrightarrow> P (f x s)) \<Longrightarrow> P (fold f xs s)"
  by (induction xs arbitrary: s) auto

lemma blocks_setBlock:
  "blocks (setBlock c x y z b) =
     (if chunkInBounds x y z then (blocks c)((x, y, z) := b) else blocks c)"
  by (simp add: setBlock_def)

lemma chunk_cx_setBlock [simp]: "chunk_cx (setBlock c x y z b) = chunk_cx c"
  by (simp add: setBlock_def)

lemma chunk_cz_setBlock [simp]: "chunk_cz (setBlock c x y z b) = chunk_cz c"
  by (simp add: setBlock_def)

lemma fillColumn_eq:
  "fillColumn sea c lx lz h b =
     fold (\<lambda>y c. setBlock c lx y lz (columnBlock sea h b y)) [0 .. CHUNK_HEIGHT - 1] c"
  unfolding fillColumn_def columnBlock_def
  by (rule arg_cong [where f = "\<lambda>f. fold f _ _"]) (auto intro!: ext)

lemma blocks_fold_setBlock:
  "blocks (fold (\<lambda>y c. setBlock c lx y lz (f y)) ys c) (x, y, z) =
     (if x = lx \<and> z = lz \<and> y \<in> set ys \<and> chunkInBounds x y z then f y else blocks c (x, y, z))"
  by (induction ys arbitrary: c) (auto simp: blocks_setBlock)

lemma blocks_fillColumn:
  "blocks (fillColumn sea c lx lz h b) (x, y, z) =
     (if x = lx \<and> z = lz \<and> chunkInBounds x y z then columnBlock sea h b y else blocks c (x, y, z))"
  by (auto simp: fillColumn_eq blocks_fold_setBlock chunkInBounds_def)

lemma chunk_cx_fillColumn [simp]: "chunk_cx (fillColumn sea c lx lz h b) = chunk_cx c"
  unfolding fillColumn_eq by (rule fold_invariant) auto

lemma chunk_cz_fillColumn [simp]: "chunk_cz (fillColumn sea c lx lz h b) = chunk_cz c"
  unfolding fillColumn_eq by (rule fold_invariant) auto

lemma fold_pair_split:
  "fold (\<lambda>z (c, h). (A z c, B z h)) zs (c, h) = (fold A zs c, fold B zs h)"
  by (induction zs arbitrary: c h) auto

lemma buildTerrain_split:
  "buildTerrain sea g c wx wz =
     (fold (\<lambda>lx. fold (\<lambda>lz c. fillColumn sea c lx lz (columnHeight g (wx + lx) (wz + lz))
                                  (effectiveBiome g (wx + lx) (wz + lz))) [0 .. CHUNK_SIZE - 1])
        [0 .. CHUNK_SIZE - 1] c,
      fold (\<lambda>lx. fold (\<lambda>lz hm. hm(lx := (hm lx)(lz := columnHeight g (wx + lx) (wz + lz))))
        [0 .. CHUNK_SIZE - 1]) [0 .. CHUNK_SIZE - 1] (\<lambda>_ _. 0))"
proof -
  define F where "F = (\<lambda>lx lz (chunk, heightmap).
        let wx' = wx + lx; wz' = wz + lz;
            biome = effectiveBiome g wx' wz';
            clampedHeight = columnHeight g wx' wz'
        in (fillColumn sea chunk lx lz clampedHeight biome,
            heightmap(lx := (heightmap lx)(lz := clampedHeight))))"
  define A where "A = (\<lambda>lx lz c. fillColumn sea c lx lz (columnHeight g (wx + lx) (wz + lz))
                                  (effectiveBiome g (wx + lx) (wz + lz)))"
  define B where "B = (\<lambda>lx lz (hm :: Heightmap). hm(lx := (hm lx)(lz := columnHeight g (wx + lx) (wz + lz))))"
  have F: "F lx lz (c, h) = (A lx lz c, B lx lz h)" for lx lz c h
    by (simp add: F_def A_def B_def Let_def)
  have inner: "fold (F lx) zs (c, h) = (fold (A lx) zs c, fold (B lx) zs h)" for lx zs c h
    by (induction zs arbitrary: c h) (simp_all add: F)
  have outer: "fold (\<lambda>lx. fold (F lx) zs) xs (c, h)
     = (fold (\<lambda>lx. fold (A lx) zs) xs c, fold (\<lambda>lx. fold (B lx) zs) xs h)" for xs zs c h
    by (induction xs arbitrary: c h) (simp_all add: inner)
  have "buildTerrain sea g c wx wz
          = fold (\<lambda>lx. fold (F lx) [0 .. CHUNK_SIZE - 1]) [0 .. CHUNK_SIZE - 1] (c, (\<lambda>_ _. 0))"
    by (simp add: buildTerrain_def F_def)
  then show ?thesis
    by (simp add: outer A_def B_def)
qed

lemma blocks_fill_row:
  "blocks (fold (\<lambda>lz c. fillColumn sea c lx lz (H lx lz) (B lx lz)) zs c) (x, y, z) =
     (if x = lx \<and> z \<in> set zs \<and> chunkInBounds x y z then columnBlock sea (H x z) (B x z) y
      else blocks c (x, y, z))"
  by (induction zs arbitrary: c) (auto simp: blocks_fillColumn)

lemma blocks_fill_grid:
  "blocks (fold (\<lambda>lx. fold (\<lambda>lz c. fillColumn sea c lx lz (H lx lz) (B lx lz)) zs) xs c) (x, y, z) =
     (if x \<in> set xs \<and> z \<in> set zs \<and> chunkInBounds x y z then columnBlock sea (H x z) (B x z) y
      else blocks c (x, y, z))"
  by (induction xs arbitrary: c) (auto simp: blocks_fill_row)

lemma hm_fill_row:
  "fold (\<lambda>lz hm. hm(lx := (hm lx)(lz := H lx lz))) zs hm x z =
     (if x = lx \<and> z \<in> set zs then H x z else hm x z)"
  by (induction zs arbitrary: hm) auto

lemma hm_fill_grid:
  "fold (\<lambda>lx. fold (\<lambda>lz hm. hm(lx := (hm lx)(lz := H lx lz))) zs) xs hm x z =
     (if x \<in> set xs \<and> z \<in> set zs then H x z else hm x z)"
  by (induction xs arbitrary: hm) (auto simp: hm_fill_row)

lemma blocks_buildTerrain:
  "blocks (fst (buildTerrain sea g c wx wz)) (x, y, z) =
     (if chunkInBounds x y z
      then columnBlock sea (columnHeight g (wx + x) (wz + z)) (effectiveBiome g (wx + x) (wz + z)) y
      else blocks c (x, y, z))"
  unfolding buildTerrain_split fst_conv
  using blocks_fill_grid [of sea "\<lambda>lx lz. columnHeight g (wx + lx) (wz + lz)"
     "\<lambda>lx lz. effectiveBiome g (wx + lx) (wz + lz)" "[0 .. CHUNK_SIZE - 1]" "[0 .. CHUNK_SIZE - 1]" c x y z]
  by (auto simp: chunkInBounds_def)

lemma heightmap_buildTerrain:
  "snd (buildTerrain sea g c wx wz) x z =
     (if 0 \<le> x \<and> x < CHUNK_SIZE \<and> 0 \<le> z \<and> z < CHUNK_SIZE then columnHeight g (wx + x) (wz + z) else 0)"
  unfolding buildTerrain_split snd_conv
  using hm_fill_grid [of "\<lambda>lx lz. columnHeight g (wx + lx) (wz + lz)" "[0 .. CHUNK_SIZE - 1]" "[0 .. CHUNK_SIZE - 1]" "\<lambda>_ _. 0" x z]
  by auto

lemma columnHeight_range: "1 \<le> columnHeight g wx wz \<and> columnHeight g wx wz \<le> 255"
  by (simp add: columnHeight_def Let_def)



lemma nth_layers:
  assumes "j < a + b + 1 + w + r"
  shows "(replicate a x1 @ replicate b x2 @ [x3] @ replicate w x4 @ replicate r x5) ! j =
     (if j < a then x1 else if j < a + b then x2 else if j = a + b then x3
      else if j < a + b + 1 + w then x4 else x5)"
  using assms by (auto simp: nth_append)

lemma column_shape:
  assumes "1 \<le> h" "h \<le> 255"
  shows "map (\<lambda>y. columnBlock sea h b (int y)) [0 ..< 256] =
           BEDROCK # replicate (nat (h - 5)) STONE
           @ replicate (nat (min 4 (h - 1))) (getSubSurfaceBlock b)
           @ [getSurfaceBlock b]
           @ replicate (nat (min sea 255 - h)) WATER
           @ replicate (255 - nat h - nat (min sea 255 - h)) AIR"
proof -
  define a where "a = nat (h - 5)"
  define bb where "bb = nat (min 4 (h - 1))"
  define w where "w = nat (min sea 255 - h)"
  define r where "r = 255 - nat h - w"
  have ab: "int a + int bb + 1 = h"
    using assms by (simp add: a_def bb_def min_def)
  have a: "int a = (if 5 \<le> h then h - 5 else 0)"
    by (simp add: a_def)
  have w: "int w = (if h < sea then min sea 255 - h else 0)"
    using assms by (simp add: w_def min_def)
  have wle: "int w \<le> 255 - h"
    using assms w by (auto simp: min_def split: if_splits)
  have r: "int r = 255 - h - int w"
    unfolding r_def using assms wle by linarith
  have len: "a + bb + 1 + w + r = 255"
    using ab r assms by linarith
  have "map (\<lambda>y. columnBlock sea h b (int y)) [0 ..< 256] =
        BEDROCK # (replicate a STONE @ replicate bb (getSubSurfaceBlock b) @ [getSurfaceBlock b]
                   @ replicate w WATER @ replicate r AIR)"
  proof (rule nth_equalityI)
    show "length (map (\<lambda>y. columnBlock sea h b (int y)) [0 ..< 256]) =
          length (BEDROCK # (replicate a STONE @ replicate bb (getSubSurfaceBlock b)
                   @ [getSurfaceBlock b] @ replicate w WATER @ replicate r AIR))"
      using len by simp
  next
    fix i
    assume "i < length (map (\<lambda>y. columnBlock sea h b (int y)) [0 ..< 256])"
    then have i: "i < 256" by simp
    show "map (\<lambda>y. columnBlock sea h b (int y)) [0 ..< 256] ! i =
          (BEDROCK # (replicate a STONE @ replicate bb (getSubSurfaceBlock b)
                   @ [getSurfaceBlock b] @ replicate w WATER @ replicate r AIR)) ! i"
    proof (cases i)
      case 0
      then show ?thesis by (simp add: columnBlock_def)
    next
      case (Suc j)
      with i len have j: "j < a + bb + 1 + w + r" by simp
      have lhs: "map (\<lambda>y. columnBlock sea h b (int y)) [0 ..< 256] ! i
                   = columnBlock sea h b (1 + int j)"
        using i Suc by simp
      have rhs: "(BEDROCK # (replicate a STONE @ replicate bb (getSubSurfaceBlock b)
                   @ [getSurfaceBlock b] @ replicate w WATER @ replicate r AIR)) ! i
                 = (if j < a then STONE else if j < a + bb then getSubSurfaceBlock b
                    else if j = a + bb then getSurfaceBlock b
                    else if j < a + bb + 1 + w then WATER else AIR)"
        unfolding Suc nth_Cons_Suc by (rule nth_layers [OF j])
      have c1: "(j < a) = (1 + int j < h - 4)"
        using a ab by (auto split: if_splits)
      have c2: "(j < a + bb) = (1 + int j < h)"
        using ab by linarith
      have c3: "(j = a + bb) = (1 + int j = h)"
        using ab by linarith
      have c4: "(j < a + bb + 1 + w) = (1 + int j \<le> h \<or> (h < sea \<and> 1 + int j \<le> sea))"
        using ab w j len by (auto simp: min_def split: if_splits)
      show ?thesis
        unfolding lhs rhs c1 c2 c3 c4
        by (auto simp: columnBlock_def)
    qed
  qed
  then show ?thesis
    by (simp add: a_def bb_def w_def r_def)
qed

lemma solid_surface: "isSolid BlockRegistry (getSurfaceBlock b) = Inr True"
  by (cases b) (simp_all add: getSurfaceBlock_def isSolid_cases BlockRegistry_def register_def)

lemma solid_subsurface: "isSolid BlockRegistry (getSubSurfaceBlock b) = Inr True"
  by (cases b) (simp_all add: getSubSurfaceBlock_def isSolid_cases BlockRegistry_def register_def)

lemma solid_stone: "isSolid BlockRegistry STONE = Inr True \<and> isSolid BlockRegistry BEDROCK = Inr True
    \<and> isSolid BlockRegistry WATER = Inr False \<and> isSolid BlockRegistry AIR = Inr False"
  by (simp add: isSolid_cases BlockRegistry_def register_def)


lemma effectiveBiome_ocean: "effectiveBiome oceanGenerator wx wz = OCEAN"
  by (simp add: effectiveBiome_def oceanGenerator_def getBiome_def getTemperature_const
        getMoisture_const)

lemma sampleHeightNoise_ocean: "sampleHeightNoise oceanGenerator wx wz = 1 / 2"
  by (simp add: sampleHeightNoise_def oceanGenerator_def upt_rec)

lemma columnHeight_ocean: "columnHeight oceanGenerator wx wz = 44"
  by (simp add: columnHeight_def effectiveBiome_ocean sampleHeightNoise_ocean BIOME_HEIGHT_def)

lemma chunk_cx_buildTerrain: "chunk_cx (fst (buildTerrain sea g c wx wz)) = chunk_cx c"
  unfolding buildTerrain_split fst_conv
  by (rule fold_invariant, simp, rule fold_invariant) simp_all

lemma chunk_cz_buildTerrain: "chunk_cz (fst (buildTerrain sea g c wx wz)) = chunk_cz c"
  unfolding buildTerrain_split fst_conv
  by (rule fold_invariant, simp, rule fold_invariant) simp_all

lemma getBlock_buildTerrain:
  "chunkInBounds x y z \<Longrightarrow>
   getBlock (fst (buildTerrain sea g c wx wz)) x y z =
     columnBlock sea (columnHeight g (wx + x) (wz + z)) (effectiveBiome g (wx + x) (wz + z)) y"
  by (simp add: getBlock_def blocks_buildTerrain)

text \<open>
  C3: after \<open>buildTerrain\<close> (which calls \<open>fillColumn\<close> once per column), the column at every
  \<open>(lx, lz)\<close> of the chunk, read from \<open>y = 0\<close> to the top, is: bedrock, a run of stone, a run
  of the biome's subsurface block, the one surface block at the height recorded in the
  heightmap, a run of water (up to sea level, empty when the surface is not below it), and a
  run of air. Bedrock, stone, subsurface and surface blocks are solid; water and air are
  not.
\<close>

theorem C3_surface_fill_column:
  fixes lx lz worldX worldZ SEA_LEVEL :: int and g :: TerrainGenerator and chunk :: Chunk
  assumes "0 \<le> lx" "lx < CHUNK_SIZE" "0 \<le> lz" "lz < CHUNK_SIZE"
  defines "h \<equiv> columnHeight g (worldX + lx) (worldZ + lz)"
      and "biome \<equiv> effectiveBiome g (worldX + lx) (worldZ + lz)"
      and "terrain \<equiv> buildTerrain SEA_LEVEL g chunk worldX worldZ"
  shows "snd terrain lx lz = h \<and> 1 \<le> h \<and> h \<le> 255
    \<and> map (\<lambda>y. getBlock (fst terrain) lx (int y) lz) [0 ..< 256] =
         BEDROCK # replicate (nat (h - 5)) STONE
         @ replicate (nat (min 4 (h - 1))) (getSubSurfaceBlock biome)
         @ [getSurfaceBlock biome]
         @ replicate (nat (min SEA_LEVEL 255 - h)) WATER
         @ replicate (255 - nat h - nat (min SEA_LEVEL 255 - h)) AIR
    \<and> isSolid BlockRegistry BEDROCK = Inr True
    \<and> isSolid BlockRegistry STONE = Inr True
    \<and> isSolid BlockRegistry (getSubSurfaceBlock biome) = Inr True
    \<and> isSolid BlockRegistry (getSurfaceBlock biome) = Inr True
    \<and> isSolid BlockRegistry WATER = Inr False
    \<and> isSolid BlockRegistry AIR = Inr False"
proof -
  have hm: "snd terrain lx lz = h"
    using assms(1-4) by (simp add: terrain_def h_def heightmap_buildTerrain)
  have range: "1 \<le> h \<and> h \<le> 255"
    unfolding h_def by (rule columnHeight_range)
  have cells: "getBlock (fst terrain) lx (int y) lz = columnBlock SEA_LEVEL h biome (int y)"
    if "y < 256" for y
    unfolding terrain_def h_def biome_def
    using that assms(1-4) by (intro getBlock_buildTerrain) (simp add: chunkInBounds_def)
  have "map (\<lambda>y. getBlock (fst terrain) lx (int y) lz) [0 ..< 256]
          = map (\<lambda>y. columnBlock SEA_LEVEL h biome (int y)) [0 ..< 256]"
    by (rule map_cong) (simp_all add: cells)
  also have "\<dots> = BEDROCK # replicate (nat (h - 5)) STONE
         @ replicate (nat (min 4 (h - 1))) (getSubSurfaceBlock biome)
         @ [getSurfaceBlock biome]
         @ replicate (nat (min SEA_LEVEL 255 - h)) WATER
         @ replicate (255 - nat h - nat (min SEA_LEVEL 255 - h)) AIR"
    using range by (intro column_shape) simp_all
  finally show ?thesis
    using hm range solid_stone solid_surface [of biome] solid_subsurface [of biome] by simp
qed

theorem C3_surface_fill_column_witness:
  "map (\<lambda>y. getBlock (fst (buildTerrain 62 (oceanGenerator) (emptyChunk 0 0) 0 0)) 3 (int y) 5)
       [0 ..< 256] =
     BEDROCK # replicate 39 STONE @ replicate 4 SAND @ [SAND] @ replicate 18 WATER @ replicate 193 AIR
   \<and> snd (buildTerrain 62 (oceanGenerator) (emptyChunk 0 0) 0 0) 3 5 = 44"
  using C3_surface_fill_column [where lx = 3 and lz = 5 and g = oceanGenerator
          and worldX = 0 and worldZ = 0 and SEA_LEVEL = 62 and chunk = "emptyChunk 0 0"]
  by (simp add: columnHeight_ocean effectiveBiome_ocean getSurfaceBlock_def
        getSubSurfaceBlock_def)

lemma wellFormed_blocks: "wellFormed c \<Longrightarrow> \<not> chunkInBounds x y z \<Longrightarrow> blocks c (x, y, z) = AIR"
  by (simp add: wellFormed_def)

lemma buildTerrain_initial_irrelevant:
  assumes "wellFormed c1" "wellFormed c2" "chunk_cx c1 = chunk_cx c2" "chunk_cz c1 = chunk_cz c2"
  shows "buildTerrain sea g c1 wx wz = buildTerrain sea g c2 wx wz"
proof (rule prod_eqI)
  have "blocks (fst (buildTerrain sea g c1 wx wz)) p = blocks (fst (buildTerrain sea g c2 wx wz)) p"
    for p
    using assms(1,2) by (cases p) (simp add: blocks_buildTerrain wellFormed_blocks)
  then have "blocks (fst (buildTerrain sea g c1 wx wz)) = blocks (fst (buildTerrain sea g c2 wx wz))"
    by (rule ext)
  then show "fst (buildTerrain sea g c1 wx wz) = fst (buildTerrain sea g c2 wx wz)"
    using assms(3,4) by (intro Chunk.equality) (simp_all add: chunk_cx_buildTerrain chunk_cz_buildTerrain)
  show "snd (buildTerrain sea g c1 wx wz) = snd (buildTerrain sea g c2 wx wz)"
    by (simp add: buildTerrain_split)
qed

lemma wellFormed_emptyChunk: "wellFormed (emptyChunk cx cz)"
  by (simp add: wellFormed_def emptyChunk_def)

lemma wellFormed_setBlock: "wellFormed c \<Longrightarrow> wellFormed (setBlock c x y z b)"
  by (auto simp: wellFormed_def setBlock_def)

lemma fold_product:
  "fold (\<lambda>x. fold (f x) zs) xs s = fold (\<lambda>(x, z). f x z) (List.product xs zs) s"
proof (induction xs arbitrary: s)
  case Nil
  show ?case by simp
next
  case (Cons x xs)
  have "fold (\<lambda>(x, z). f x z) (map (Pair x) zs) s = fold (f x) zs s" for s
    by (simp add: fold_map comp_def)
  then show ?case
    by (simp add: Cons.IH)
qed

lemma flatStep_None: "fold (flatStep hm) ps None = None"
  by (induction ps) (auto simp: flatStep_def)

lemma flatStep_some:
  assumes "0 \<le> x" "x < 16" "0 \<le> z" "z < 16"
  shows "flatStep hm (x, z) (Some (Some m, Some M)) = Some (Some (min (hm x z) m), Some (max (hm x z) M))"
  using assms by (auto simp: flatStep_def Let_def min_def max_def)

lemma flatStep_in:
  assumes "finite S" "0 \<le> x" "x < 16" "0 \<le> z" "z < 16"
  shows "flatStep hm (x, z) (Some (mnOf S, mxOf S))
           = Some (mnOf (insert (hm x z) S), mxOf (insert (hm x z) S))"
proof (cases "S = {}")
  case True
  then show ?thesis using assms by (simp add: flatStep_def mnOf_def mxOf_def Let_def)
next
  case False
  have mn: "mnOf (insert (hm x z) S) = Some (min (hm x z) (Min S))"
    using assms(1) False by (simp add: mnOf_def)
  have mx: "mxOf (insert (hm x z) S) = Some (max (hm x z) (Max S))"
    using assms(1) False by (simp add: mxOf_def)
  have old: "mnOf S = Some (Min S)" "mxOf S = Some (Max S)"
    using False by (simp_all add: mnOf_def mxOf_def)
  show ?thesis
    unfolding mn mx old using assms(2-5) by (rule flatStep_some)
qed

lemma flatStep_out:
  "\<not> (0 \<le> x \<and> x < 16 \<and> 0 \<le> z \<and> z < 16) \<Longrightarrow> flatStep hm (x, z) (Some st) = None"
  by (cases st) (auto simp: flatStep_def)

lemma flat_fold:
  assumes "finite S"
  shows "fold (flatStep hm) ps (Some (mnOf S, mxOf S)) =
     (if \<forall>(x, z) \<in> set ps. 0 \<le> x \<and> x < 16 \<and> 0 \<le> z \<and> z < 16
      then Some (mnOf (S \<union> (\<lambda>(x, z). hm x z) ` set ps), mxOf (S \<union> (\<lambda>(x, z). hm x z) ` set ps))
      else None)"
  using assms
proof (induction ps arbitrary: S)
  case Nil
  show ?case by simp
next
  case (Cons p ps)
  obtain x z where p: "p = (x, z)" by (cases p)
  show ?case
  proof (cases "0 \<le> x \<and> x < 16 \<and> 0 \<le> z \<and> z < 16")
    case True
    then have step: "flatStep hm (x, z) (Some (mnOf S, mxOf S))
           = Some (mnOf (insert (hm x z) S), mxOf (insert (hm x z) S))"
      using Cons.prems by (intro flatStep_in) auto
    have fin: "finite (insert (hm x z) S)" using Cons.prems by simp
    have sets: "insert (hm x z) S \<union> (\<lambda>(x, z). hm x z) ` set ps
                  = S \<union> (\<lambda>(x, z). hm x z) ` set (p # ps)"
      by (auto simp: p)
    have "fold (flatStep hm) (p # ps) (Some (mnOf S, mxOf S))
            = fold (flatStep hm) ps (Some (mnOf (insert (hm x z) S), mxOf (insert (hm x z) S)))"
      by (simp add: p step)
    also have "\<dots> = (if \<forall>(x, z) \<in> set ps. 0 \<le> x \<and> x < 16 \<and> 0 \<le> z \<and> z < 16
        then Some (mnOf (insert (hm x z) S \<union> (\<lambda>(x, z). hm x z) ` set ps),
                   mxOf (insert (hm x z) S \<union> (\<lambda>(x, z). hm x z) ` set ps))
        else None)"
      by (rule Cons.IH [OF fin])
    finally show ?thesis
      unfolding sets using True by (simp add: p)
  next
    case False
    then show ?thesis
      by (auto simp: p flatStep_out flatStep_None)
  qed
qed

lemma isFlatArea_fold:
  "isFlatArea hm sx sz w d v =
     (case fold (flatStep hm) (List.product [sx .. sx + w - 1] [sz .. sz + d - 1]) (Some (None, None))
      of None \<Rightarrow> False
       | Some (Some minH, Some maxH) \<Rightarrow> maxH - minH \<le> v
       | Some _ \<Rightarrow> True)"
  unfolding isFlatArea_def flatStep_def fold_product ..

lemma isFlatArea_iff:
  assumes "0 < w" "0 < d"
  shows "isFlatArea hm sx sz w d v = flatFootprint hm sx sz w d v"
proof -
  have set: "set (List.product [sx .. sx + w - 1] [sz .. sz + d - 1]) = footprint sx sz w d"
    by (simp add: footprint_def)
  have ne: "footprint sx sz w d \<noteq> {}"
    using assms by (auto simp: footprint_def)
  have e: "(None, None) = (mnOf {}, mxOf {})"
    by (simp add: mnOf_def mxOf_def)
  show ?thesis
    unfolding isFlatArea_fold e flat_fold [OF finite.emptyI] set flatFootprint_def
    using ne by (auto simp: mnOf_def mxOf_def)
qed

lemma snd_mulberry32: "snd (mulberry32 s) = s + 0x6d2b79f5"
  by (simp add: mulberry32_def Let_def)

lemma fst_mulberry32_range: "0 \<le> fst (mulberry32 s) \<and> fst (mulberry32 s) < 1"
proof -
  define W where "W = mulberry32_word (s + 0x6d2b79f5)"
  define x where "x = real (unat W)"
  have "unat W < 2 ^ LENGTH(32)"
    by (rule unsigned_less)
  then have "unat W < 4294967296"
    by simp
  then have x: "0 \<le> x" "x < 4294967296"
    unfolding x_def by linarith+
  have "fst (mulberry32 s) = x / 4294967296"
    unfolding x_def W_def mulberry32_def Let_def fst_conv ..
  with x show ?thesis
    by simp
qed

lemma floor_roll_range:
  assumes "0 \<le> r" "r < 1" "0 < n"
  shows "0 \<le> \<lfloor>r * real_of_int n\<rfloor> \<and> \<lfloor>r * real_of_int n\<rfloor> \<le> n - 1"
proof -
  have "0 \<le> r * real_of_int n" using assms by simp
  then have lo: "0 \<le> \<lfloor>r * real_of_int n\<rfloor>" by simp
  have "r * real_of_int n < real_of_int n" using assms by simp
  then have "\<lfloor>r * real_of_int n\<rfloor> < n" by (simp add: floor_less_iff)
  with lo show ?thesis by simp
qed

lemma tryPlaceDungeonFrom_unfold:
  "tryPlaceDungeonFrom chunk rng attempt =
     (if attempt < 5 then
        (if dungeonProbes chunk (dungeonCandidate rng)
         then (True, buildDungeonAt chunk (dungeonCandidate rng), rng + 3 * 0x6d2b79f5)
         else tryPlaceDungeonFrom chunk (rng + 3 * 0x6d2b79f5) (attempt + 1))
      else (False, chunk, rng))"
proof -
  have three: "snd (mulberry32 (snd (mulberry32 (snd (mulberry32 rng))))) = rng + 3 * 0x6d2b79f5"
    by (simp add: snd_mulberry32)
  show ?thesis
    apply (subst tryPlaceDungeonFrom.simps)
    apply (simp add: Let_def split_beta dungeonProbes_def dungeonCandidate_def buildDungeonAt_def
        three del: tryPlaceDungeonFrom.simps)
    done
qed

lemma tryPlaceDungeonFrom_spec:
  assumes "attempt = 5 - int n" "n \<le> 5"
  shows "(fst (tryPlaceDungeonFrom chunk rng attempt) \<longrightarrow>
            (\<exists>k < n. dungeonProbes chunk (candidateAt rng k)
               \<and> (\<forall>j < k. \<not> dungeonProbes chunk (candidateAt rng j))
               \<and> fst (snd (tryPlaceDungeonFrom chunk rng attempt))
                   = buildDungeonAt chunk (candidateAt rng k)))
       \<and> (\<not> fst (tryPlaceDungeonFrom chunk rng attempt) \<longrightarrow>
            fst (snd (tryPlaceDungeonFrom chunk rng attempt)) = chunk
            \<and> (\<forall>k < n. \<not> dungeonProbes chunk (candidateAt rng k)))"
  using assms
proof (induction n arbitrary: rng attempt)
  case 0
  then show ?case
    by (subst (1 2 3 4) tryPlaceDungeonFrom_unfold) simp
next
  case (Suc n)
  have att: "attempt < 5" "attempt + 1 = 5 - int n" "n \<le> 5"
    using Suc.prems by simp_all
  have c0: "candidateAt rng 0 = dungeonCandidate rng"
    by (simp add: candidateAt_def)
  have shift: "candidateAt (rng + 3 * 0x6d2b79f5) k = candidateAt rng (Suc k)" for k
    by (simp add: candidateAt_def algebra_simps)
  show ?case
  proof (cases "dungeonProbes chunk (dungeonCandidate rng)")
    case True
    then have res: "tryPlaceDungeonFrom chunk rng attempt
          = (True, buildDungeonAt chunk (dungeonCandidate rng), rng + 3 * 0x6d2b79f5)"
      using att(1) by (subst tryPlaceDungeonFrom_unfold) simp
    show ?thesis
      unfolding res using True c0 by auto
  next
    case False
    then have res: "tryPlaceDungeonFrom chunk rng attempt
          = tryPlaceDungeonFrom chunk (rng + 3 * 0x6d2b79f5) (attempt + 1)"
      using att(1) by (subst tryPlaceDungeonFrom_unfold) simp
    note IH = Suc.IH [OF att(2,3), of "rng + 3 * 0x6d2b79f5", unfolded shift]
    show ?thesis
    proof (cases "fst (tryPlaceDungeonFrom chunk (rng + 3 * 0x6d2b79f5) (attempt + 1))")
      case placed: True
      with IH obtain k where k: "k < n" "dungeonProbes chunk (candidateAt rng (Suc k))"
        "\<forall>j < k. \<not> dungeonProbes chunk (candidateAt rng (Suc j))"
        "fst (snd (tryPlaceDungeonFrom chunk (rng + 3 * 0x6d2b79f5) (attempt + 1)))
           = buildDungeonAt chunk (candidateAt rng (Suc k))"
        by blast
      have "\<forall>j < Suc k. \<not> dungeonProbes chunk (candidateAt rng j)"
      proof (intro allI impI)
        fix j assume "j < Suc k"
        then show "\<not> dungeonProbes chunk (candidateAt rng j)"
          using k(3) False c0 by (cases j) auto
      qed
      with k placed show ?thesis
        unfolding res by (intro conjI impI) (auto intro!: exI [of _ "Suc k"])
    next
      case notplaced: False
      with IH have un: "fst (snd (tryPlaceDungeonFrom chunk (rng + 3 * 0x6d2b79f5) (attempt + 1))) = chunk"
        and none: "\<forall>k < n. \<not> dungeonProbes chunk (candidateAt rng (Suc k))"
        by blast+
      have "\<forall>k < Suc n. \<not> dungeonProbes chunk (candidateAt rng k)"
      proof (intro allI impI)
        fix k assume "k < Suc n"
        then show "\<not> dungeonProbes chunk (candidateAt rng k)"
          using none False c0 by (cases k) auto
      qed
      with un notplaced show ?thesis
        unfolding res by simp
    qed
  qed
qed

lemma dungeonCandidate_range:
  "(case dungeonCandidate rng of (sx, sy, sz) \<Rightarrow>
      2 \<le> sx \<and> sx \<le> 8 \<and> 12 \<le> sy \<and> sy \<le> 39 \<and> 2 \<le> sz \<and> sz \<le> 8)"
proof -
  have f: "0 \<le> \<lfloor>fst (mulberry32 s) * real_of_int n\<rfloor> \<and> \<lfloor>fst (mulberry32 s) * real_of_int n\<rfloor> \<le> n - 1"
    if "0 < n" for s n
    using fst_mulberry32_range [of s] that by (intro floor_roll_range) auto
  show ?thesis
    using f [of 7 rng] f [of 7 "snd (mulberry32 rng)"] f [of 28 "snd (mulberry32 (snd (mulberry32 rng)))"]
    by (simp add: dungeonCandidate_def Let_def split_beta)
qed

lemma blocks_setBlock_other:
  "(a, b) \<noteq> (x, z) \<Longrightarrow> blocks (setBlock c a y' b blk) (x, y, z) = blocks c (x, y, z)"
  by (auto simp: setBlock_def)

lemma fold2_blocks_preserved:
  fixes c :: Chunk
  assumes "\<And>a b c. a \<in> set xs \<Longrightarrow> b \<in> set zs \<Longrightarrow> blocks (f a b c) p = blocks c p"
  shows "blocks (fold (\<lambda>a. fold (f a) zs) xs c) p = blocks c p"
proof (rule fold_invariant [where P = "\<lambda>c'. blocks c' p = blocks c p"])
  show "blocks c p = blocks c p" ..
next
  fix a and c' :: Chunk
  assume a: "a \<in> set xs" and c': "blocks c' p = blocks c p"
  show "blocks (fold (f a) zs c') p = blocks c p"
  proof (rule fold_invariant [where P = "\<lambda>c''. blocks c'' p = blocks c p"])
    show "blocks c' p = blocks c p" by (rule c')
  next
    fix b and c'' :: Chunk
    assume "b \<in> set zs" "blocks c'' p = blocks c p"
    with a show "blocks (f a b c'') p = blocks c p"
      by (simp add: assms)
  qed
qed

lemma fold3_blocks_preserved:
  fixes c :: Chunk
  assumes "\<And>a b d c. a \<in> set xs \<Longrightarrow> b \<in> set ys \<Longrightarrow> d \<in> set zs
             \<Longrightarrow> blocks (f a b d c) p = blocks c p"
  shows "blocks (fold (\<lambda>a. fold (\<lambda>b. fold (f a b) zs) ys) xs c) p = blocks c p"
proof (rule fold_invariant [where P = "\<lambda>c'. blocks c' p = blocks c p"])
  show "blocks c p = blocks c p" ..
next
  fix a and c' :: Chunk
  assume a: "a \<in> set xs" and c': "blocks c' p = blocks c p"
  have "blocks (fold (\<lambda>b. fold (f a b) zs) ys c') p = blocks c' p"
    using a by (intro fold2_blocks_preserved) (simp add: assms)
  with c' show "blocks (fold (\<lambda>b. fold (f a b) zs) ys c') p = blocks c p"
    by simp
qed

lemma buildDesertWell_confined:
  assumes "(x, z) \<notin> footprint sx sz 5 5"
  shows "blocks (buildDesertWell chunk hm sx sz) (x, y, z) = blocks chunk (x, y, z)"
proof -
  have key: "blocks (setBlock c a y' b blk) (x, y, z) = blocks c (x, y, z)"
    if "sx \<le> a" "a \<le> sx + 4" "sz \<le> b" "b \<le> sz + 4" for a b y' blk and c :: Chunk
    using assms that by (auto simp: setBlock_def footprint_def)
  show ?thesis
    unfolding buildDesertWell_def Let_def
    apply (subst fold2_blocks_preserved)
     apply (simp add: key)
    apply (subst fold2_blocks_preserved)
     apply (simp add: key)
    apply (subst fold2_blocks_preserved)
     apply (simp add: key)
    apply (rule refl)
    done
qed

lemma buildCabin_confined:
  assumes "(x, z) \<notin> footprint sx sz 7 5"
  shows "blocks (buildCabin chunk hm sx sz) (x, y, z) = blocks chunk (x, y, z)"
proof -
  have key: "blocks (setBlock c a y' b blk) (x, y, z) = blocks c (x, y, z)"
    if "sx \<le> a" "a \<le> sx + 6" "sz \<le> b" "b \<le> sz + 4" for a b y' blk and c :: Chunk
    using assms that by (auto simp: setBlock_def footprint_def)
  show ?thesis
    unfolding buildCabin_def Let_def
    apply (simp only: key [of "sx + 3" "sz + 1", simplified] key [of "sx + 1" "sz + 1", simplified]
        key [of "sx + 2" "sz + 1", simplified])
    apply (subst fold2_blocks_preserved)
     apply (simp add: key)
    apply (subst fold2_blocks_preserved)
     apply (simp add: key)
    apply (subst fold3_blocks_preserved)
     apply (simp add: key)
    apply (subst fold2_blocks_preserved)
     apply (simp add: key)
    apply (rule refl)
    done
qed

lemma roll_index_range:
  assumes "0 < n"
  shows "0 \<le> \<lfloor>fst (mulberry32 s) * real_of_int n\<rfloor> \<and> \<lfloor>fst (mulberry32 s) * real_of_int n\<rfloor> \<le> n - 1"
  using fst_mulberry32_range [of s] assms by (intro floor_roll_range) auto

lemma tryPlaceDesertWell_spec:
  "(fst (tryPlaceDesertWell chunk hm rng) \<longrightarrow>
      (\<exists>sx sz. 3 \<le> sx \<and> sx \<le> 7 \<and> 3 \<le> sz \<and> sz \<le> 7 \<and> flatFootprint hm sx sz 5 5 1
         \<and> fst (snd (tryPlaceDesertWell chunk hm rng)) = buildDesertWell chunk hm sx sz))
   \<and> (\<not> fst (tryPlaceDesertWell chunk hm rng) \<longrightarrow>
        fst (snd (tryPlaceDesertWell chunk hm rng)) = chunk)"
proof -
  define sx where "sx = 3 + \<lfloor>fst (mulberry32 rng) * real_of_int 5\<rfloor>"
  define sz where "sz = 3 + \<lfloor>fst (mulberry32 (snd (mulberry32 rng))) * real_of_int 5\<rfloor>"
  have bounds: "3 \<le> sx \<and> sx \<le> 7 \<and> 3 \<le> sz \<and> sz \<le> 7"
    unfolding sx_def sz_def
    using roll_index_range [of 5 rng] roll_index_range [of 5 "snd (mulberry32 rng)"] by linarith
  have res: "tryPlaceDesertWell chunk hm rng =
      (if flatFootprint hm sx sz 5 5 1
       then (True, buildDesertWell chunk hm sx sz, snd (mulberry32 (snd (mulberry32 rng))))
       else (False, chunk, snd (mulberry32 (snd (mulberry32 rng)))))"
    by (simp add: tryPlaceDesertWell_def Let_def split_beta isFlatArea_iff sx_def sz_def)
  show ?thesis
    unfolding res using bounds by auto
qed

lemma tryPlaceCabin_spec:
  "(fst (tryPlaceCabin chunk hm rng) \<longrightarrow>
      (\<exists>sx sz. 2 \<le> sx \<and> sx \<le> 6 \<and> 2 \<le> sz \<and> sz \<le> 8 \<and> flatFootprint hm sx sz 7 5 2
         \<and> fst (snd (tryPlaceCabin chunk hm rng)) = buildCabin chunk hm sx sz))
   \<and> (\<not> fst (tryPlaceCabin chunk hm rng) \<longrightarrow>
        fst (snd (tryPlaceCabin chunk hm rng)) = chunk)"
proof -
  define sx where "sx = 2 + \<lfloor>fst (mulberry32 rng) * real_of_int 5\<rfloor>"
  define sz where "sz = 2 + \<lfloor>fst (mulberry32 (snd (mulberry32 rng))) * real_of_int 7\<rfloor>"
  have bounds: "2 \<le> sx \<and> sx \<le> 6 \<and> 2 \<le> sz \<and> sz \<le> 8"
    unfolding sx_def sz_def
    using roll_index_range [of 5 rng] roll_index_range [of 7 "snd (mulberry32 rng)"] by linarith
  have res: "tryPlaceCabin chunk hm rng =
      (if flatFootprint hm sx sz 7 5 2
       then (True, buildCabin chunk hm sx sz, snd (mulberry32 (snd (mulberry32 rng))))
       else (False, chunk, snd (mulberry32 (snd (mulberry32 rng)))))"
    by (simp add: tryPlaceCabin_def Let_def split_beta isFlatArea_iff sx_def sz_def)
  show ?thesis
    unfolding res using bounds by auto
qed

lemma tryPlaceDungeon_spec:
  "(fst (tryPlaceDungeon chunk rng) \<longrightarrow>
            (\<exists>k < 5. dungeonProbes chunk (candidateAt rng k)
               \<and> (\<forall>j < k. \<not> dungeonProbes chunk (candidateAt rng j))
               \<and> fst (snd (tryPlaceDungeon chunk rng)) = buildDungeonAt chunk (candidateAt rng k)))
       \<and> (\<not> fst (tryPlaceDungeon chunk rng) \<longrightarrow>
            fst (snd (tryPlaceDungeon chunk rng)) = chunk
            \<and> (\<forall>k < 5. \<not> dungeonProbes chunk (candidateAt rng k)))"
  unfolding tryPlaceDungeon_def
  using tryPlaceDungeonFrom_spec [of 0 5 chunk rng] by simp

lemma placeStructuresFrom_cases:
  "fst (placeStructuresFrom chunk hm bm wx wz rng structRng) = chunk
   \<or> oneStructure chunk hm (fst (placeStructuresFrom chunk hm bm wx wz rng structRng))"
proof -
  define cb where "cb = getBiome bm (wx + 8) (wz + 8)"
  define stage1 where "stage1 =
      (if cb = DESERT then
         (if fst (mulberry32 structRng) < 0.03
          then tryPlaceDesertWell chunk hm (snd (mulberry32 structRng))
          else (False, chunk, snd (mulberry32 structRng)))
       else (False, chunk, structRng))"
  define s1 where "s1 = snd (snd stage1)"
  define stage2 where "stage2 =
      (if cb = PLAINS \<or> cb = FOREST then
         (if fst (mulberry32 s1) < 0.02
          then tryPlaceCabin chunk hm (snd (mulberry32 s1))
          else (False, chunk, snd (mulberry32 s1)))
       else (False, chunk, s1))"
  define s2 where "s2 = snd (snd stage2)"
  define stage3 where "stage3 =
      (if fst (mulberry32 s2) < 0.05
       then fst (snd (tryPlaceDungeon chunk (snd (mulberry32 s2))))
       else chunk)"
  have w: "(fst stage1 \<longrightarrow> oneStructure chunk hm (fst (snd stage1)))
           \<and> (\<not> fst stage1 \<longrightarrow> fst (snd stage1) = chunk)"
    using tryPlaceDesertWell_spec [of chunk hm "snd (mulberry32 structRng)"]
    unfolding stage1_def oneStructure_def by (simp split: if_splits) blast
  have c: "(fst stage2 \<longrightarrow> oneStructure chunk hm (fst (snd stage2)))
           \<and> (\<not> fst stage2 \<longrightarrow> fst (snd stage2) = chunk)"
    using tryPlaceCabin_spec [of chunk hm "snd (mulberry32 s1)"]
    unfolding stage2_def oneStructure_def by (simp split: if_splits) blast
  have dung: "fst (snd (tryPlaceDungeon chunk s)) = chunk
              \<or> oneStructure chunk hm (fst (snd (tryPlaceDungeon chunk s)))" for s
  proof (cases "fst (tryPlaceDungeon chunk s)")
    case True
    with tryPlaceDungeon_spec [of chunk s] obtain k where
      "dungeonProbes chunk (candidateAt s k)"
      "fst (snd (tryPlaceDungeon chunk s)) = buildDungeonAt chunk (candidateAt s k)"
      by blast
    then have "\<exists>c. dungeonProbes chunk c \<and> fst (snd (tryPlaceDungeon chunk s)) = buildDungeonAt chunk c"
      by blast
    then show ?thesis
      by (simp add: oneStructure_def)
  next
    case False
    with tryPlaceDungeon_spec [of chunk s] show ?thesis
      by blast
  qed
  have d: "stage3 = chunk \<or> oneStructure chunk hm stage3"
    unfolding stage3_def using dung [of "snd (mulberry32 s2)"] by simp
  have nw: "\<not> fst stage1 \<Longrightarrow> stage1 = (False, chunk, s1)"
    using w by (cases stage1) (simp add: s1_def)
  have res: "fst (placeStructuresFrom chunk hm bm wx wz rng structRng) =
      (if fst stage1 then fst (snd stage1)
       else if fst stage2 then fst (snd stage2)
       else stage3)"
  proof (cases "fst stage1")
    case True
    then show ?thesis
      unfolding placeStructuresFrom_def Let_def split_beta cb_def [symmetric]
      unfolding stage1_def [symmetric]
      by simp
  next
    case False
    have nc: "\<not> fst stage2 \<Longrightarrow> stage2 = (False, chunk, s2)"
      using c by (cases stage2) (simp add: s2_def)
    show ?thesis
    proof (cases "fst stage2")
      case True
      with False show ?thesis
        unfolding placeStructuresFrom_def Let_def split_beta cb_def [symmetric]
        unfolding stage1_def [symmetric]
        unfolding nw [OF False] snd_conv fst_conv
        unfolding stage2_def [symmetric]
        by simp
    next
      case nc': False
      with False show ?thesis
        unfolding placeStructuresFrom_def Let_def split_beta cb_def [symmetric]
        unfolding stage1_def [symmetric]
        unfolding nw [OF False] snd_conv fst_conv
        unfolding stage2_def [symmetric]
        unfolding nc [OF nc'] snd_conv fst_conv
        by (simp add: stage3_def)
    qed
  qed
  show ?thesis
    unfolding res using w c d by auto
qed

lemma getBlock_setBlock:
  "getBlock (setBlock c x y z b) x' y' z' =
     (if chunkInBounds x y z \<and> x' = x \<and> y' = y \<and> z' = z then b else getBlock c x' y' z')"
  by (auto simp: getBlock_def setBlock_def)

lemma getBlock_emptyChunk: "getBlock (emptyChunk cx cz) x y z = AIR"
  by (simp add: getBlock_def emptyChunk_def)

lemma well_flat: "tryPlaceDesertWell chunk flatHeightmap 0
     = (True, buildDesertWell chunk flatHeightmap 4 3, 3663131626)"
  by (simp add: tryPlaceDesertWell_def mulberry32_def mulberry32_word_def imul_def Let_def
      isFlatArea_def flatHeightmap_def upto.simps)

lemma well_slope: "tryPlaceDesertWell chunk slopeHeightmap 0 = (False, chunk, 3663131626)"
  by (simp add: tryPlaceDesertWell_def mulberry32_def mulberry32_word_def imul_def Let_def
      isFlatArea_def slopeHeightmap_def upto.simps)

lemma cabin_flat: "tryPlaceCabin chunk flatHeightmap 0
     = (True, buildCabin chunk flatHeightmap 3 2, 3663131626)"
  by (simp add: tryPlaceCabin_def mulberry32_def mulberry32_word_def imul_def Let_def
      isFlatArea_def flatHeightmap_def upto.simps)

lemma cabin_slope: "tryPlaceCabin chunk slopeHeightmap 0 = (False, chunk, 3663131626)"
  by (simp add: tryPlaceCabin_def mulberry32_def mulberry32_word_def imul_def Let_def
      isFlatArea_def slopeHeightmap_def upto.simps)

lemma dungeon_test_placed:
  "tryPlaceDungeon dungeonTestChunk 0 = (True, buildDungeon dungeonTestChunk 3 18 2 7 5, 3 * 0x6d2b79f5)"
  unfolding tryPlaceDungeon_def
  apply (subst tryPlaceDungeonFrom.simps)
  apply (simp add: mulberry32_def mulberry32_word_def imul_def Let_def dungeonTestChunk_def
      getBlock_setBlock chunkInBounds_def getBlock_emptyChunk)
  done

lemma dungeonProbes_emptyChunk: "\<not> dungeonProbes (emptyChunk cx cz) c"
  by (cases c) (simp add: dungeonProbes_def getBlock_emptyChunk)

lemma dungeon_empty_not_placed: "\<not> fst (tryPlaceDungeon (emptyChunk 0 0) 0)"
  using tryPlaceDungeon_spec [of "emptyChunk 0 0" 0] dungeonProbes_emptyChunk by blast

text \<open>
  C6: the chunk that \<open>placeStructures\<close> leaves is the chunk it was given or that chunk with
  exactly one structure built on it (a desert well, a cabin or a dungeon). A well is built
  only where the heightmap is flat within 1 over its 5 by 5 footprint, a cabin only where it
  is flat within 2 over its 7 by 5 footprint; an attempt that is not committed leaves the
  chunk as it was; and the builders write nothing outside the footprint that was checked.
\<close>

theorem C6_one_structure_when_flat:
  fixes seed :: int and chunk :: Chunk and hm :: Heightmap and bm :: BiomeMap
    and worldX worldZ :: int and rng s :: Rng
  defines "result \<equiv> fst (placeStructures seed chunk hm bm worldX worldZ rng)"
  shows
   "(result = chunk
      \<or> (\<exists>sx sz. flatFootprint hm sx sz 5 5 1 \<and> result = buildDesertWell chunk hm sx sz)
      \<or> (\<exists>sx sz. flatFootprint hm sx sz 7 5 2 \<and> result = buildCabin chunk hm sx sz)
      \<or> (\<exists>c. dungeonProbes chunk c \<and> result = buildDungeonAt chunk c))
    \<and> (fst (tryPlaceDesertWell chunk hm s) \<longrightarrow>
          (\<exists>sx sz. flatFootprint hm sx sz 5 5 1
             \<and> fst (snd (tryPlaceDesertWell chunk hm s)) = buildDesertWell chunk hm sx sz))
    \<and> (\<not> fst (tryPlaceDesertWell chunk hm s) \<longrightarrow> fst (snd (tryPlaceDesertWell chunk hm s)) = chunk)
    \<and> (fst (tryPlaceCabin chunk hm s) \<longrightarrow>
          (\<exists>sx sz. flatFootprint hm sx sz 7 5 2
             \<and> fst (snd (tryPlaceCabin chunk hm s)) = buildCabin chunk hm sx sz))
    \<and> (\<not> fst (tryPlaceCabin chunk hm s) \<longrightarrow> fst (snd (tryPlaceCabin chunk hm s)) = chunk)
    \<and> (\<forall>sx sz x y z. (x, z) \<notin> footprint sx sz 5 5 \<longrightarrow>
          blocks (buildDesertWell chunk hm sx sz) (x, y, z) = blocks chunk (x, y, z))
    \<and> (\<forall>sx sz x y z. (x, z) \<notin> footprint sx sz 7 5 \<longrightarrow>
          blocks (buildCabin chunk hm sx sz) (x, y, z) = blocks chunk (x, y, z))"
proof -
  have one: "result = chunk
      \<or> (\<exists>sx sz. flatFootprint hm sx sz 5 5 1 \<and> result = buildDesertWell chunk hm sx sz)
      \<or> (\<exists>sx sz. flatFootprint hm sx sz 7 5 2 \<and> result = buildCabin chunk hm sx sz)
      \<or> (\<exists>c. dungeonProbes chunk c \<and> result = buildDungeonAt chunk c)"
    using placeStructuresFrom_cases [of chunk hm bm worldX worldZ rng "structureRng seed worldX worldZ"]
    unfolding result_def placeStructures_def Let_def oneStructure_def by blast
  have well: "(fst (tryPlaceDesertWell chunk hm s) \<longrightarrow>
          (\<exists>sx sz. flatFootprint hm sx sz 5 5 1
             \<and> fst (snd (tryPlaceDesertWell chunk hm s)) = buildDesertWell chunk hm sx sz))
    \<and> (\<not> fst (tryPlaceDesertWell chunk hm s) \<longrightarrow> fst (snd (tryPlaceDesertWell chunk hm s)) = chunk)"
    using tryPlaceDesertWell_spec [of chunk hm s] by blast
  have cabin: "(fst (tryPlaceCabin chunk hm s) \<longrightarrow>
          (\<exists>sx sz. flatFootprint hm sx sz 7 5 2
             \<and> fst (snd (tryPlaceCabin chunk hm s)) = buildCabin chunk hm sx sz))
    \<and> (\<not> fst (tryPlaceCabin chunk hm s) \<longrightarrow> fst (snd (tryPlaceCabin chunk hm s)) = chunk)"
    using tryPlaceCabin_spec [of chunk hm s] by blast
  from one well cabin show ?thesis
    by (simp add: buildDesertWell_confined buildCabin_confined)
qed

theorem C6_one_structure_when_flat_witness:
  "fst (tryPlaceDesertWell (emptyChunk 0 0) flatHeightmap 0)
   \<and> (\<exists>sx sz. flatFootprint flatHeightmap sx sz 5 5 1
         \<and> fst (snd (tryPlaceDesertWell (emptyChunk 0 0) flatHeightmap 0))
             = buildDesertWell (emptyChunk 0 0) flatHeightmap sx sz)
   \<and> \<not> fst (tryPlaceDesertWell (emptyChunk 0 0) slopeHeightmap 0)
   \<and> fst (snd (tryPlaceDesertWell (emptyChunk 0 0) slopeHeightmap 0)) = emptyChunk 0 0
   \<and> fst (tryPlaceCabin (emptyChunk 0 0) flatHeightmap 0)
   \<and> (\<exists>sx sz. flatFootprint flatHeightmap sx sz 7 5 2
         \<and> fst (snd (tryPlaceCabin (emptyChunk 0 0) flatHeightmap 0))
             = buildCabin (emptyChunk 0 0) flatHeightmap sx sz)
   \<and> \<not> fst (tryPlaceCabin (emptyChunk 0 0) slopeHeightmap 0)
   \<and> fst (snd (tryPlaceCabin (emptyChunk 0 0) slopeHeightmap 0)) = emptyChunk 0 0
   \<and> (2, 3) \<notin> footprint 4 3 5 5
   \<and> blocks (buildDesertWell (emptyChunk 0 0) flatHeightmap 4 3) (2, 64, 3) = AIR
   \<and> (2, 3) \<notin> footprint 3 2 7 5
   \<and> blocks (buildCabin (emptyChunk 0 0) flatHeightmap 3 2) (2, 65, 3) = AIR"
proof -
  note flat = C6_one_structure_when_flat [where seed = 0 and chunk = "emptyChunk 0 0"
      and hm = flatHeightmap and bm = "constBiomeMap 0.5 0.4" and worldX = 0 and worldZ = 0 and rng = 0 and s = 0]
  note slope = C6_one_structure_when_flat [where seed = 0 and chunk = "emptyChunk 0 0"
      and hm = slopeHeightmap and bm = "constBiomeMap 0.5 0.4" and worldX = 0 and worldZ = 0 and rng = 0 and s = 0]
  have w1: "fst (tryPlaceDesertWell (emptyChunk 0 0) flatHeightmap 0)"
    by (simp add: well_flat)
  have w2: "\<not> fst (tryPlaceDesertWell (emptyChunk 0 0) slopeHeightmap 0)"
    by (simp add: well_slope)
  have c1: "fst (tryPlaceCabin (emptyChunk 0 0) flatHeightmap 0)"
    by (simp add: cabin_flat)
  have c2: "\<not> fst (tryPlaceCabin (emptyChunk 0 0) slopeHeightmap 0)"
    by (simp add: cabin_slope)
  have f1: "(2, 3) \<notin> footprint 4 3 5 5" and f2: "(2, 3) \<notin> footprint 3 2 7 5"
    by (simp_all add: footprint_def)
  have e: "blocks (emptyChunk 0 0) p = AIR" for p
    by (simp add: emptyChunk_def)
  from flat slope w1 w2 c1 c2 f1 f2 show ?thesis
    by (simp add: e)
qed

text \<open>
  C7, as stated, fails: in a chunk of air whose only stone is the two probed cells, the first
  candidate passes the verification and the dungeon is built, although the floor and the
  ceiling of the candidate volume are air (here the centres of both) and not stone.
\<close>

theorem C7_dungeon_embedding_counterexample:
  "fst (tryPlaceDungeon dungeonTestChunk 0)
   \<and> fst (snd (tryPlaceDungeon dungeonTestChunk 0)) = buildDungeon dungeonTestChunk 3 18 2 7 5
   \<and> getBlock dungeonTestChunk 6 18 5 = AIR
   \<and> getBlock dungeonTestChunk 6 22 5 = AIR
   \<and> getBlock dungeonTestChunk 3 18 2 = AIR
   \<and> getBlock (buildDungeon dungeonTestChunk 3 18 2 7 5) 6 18 5 = COBBLESTONE
   \<and> getBlock (buildDungeon dungeonTestChunk 3 18 2 7 5) 6 22 5 = COBBLESTONE"
proof -
  have a: "getBlock dungeonTestChunk 6 18 5 = AIR \<and> getBlock dungeonTestChunk 6 22 5 = AIR
             \<and> getBlock dungeonTestChunk 3 18 2 = AIR"
    by (simp add: dungeonTestChunk_def getBlock_setBlock getBlock_emptyChunk)
  have b: "getBlock (buildDungeon dungeonTestChunk 3 18 2 7 5) 6 18 5 = COBBLESTONE"
    by code_simp
  have c: "getBlock (buildDungeon dungeonTestChunk 3 18 2 7 5) 6 22 5 = COBBLESTONE"
    by code_simp
  from a b c show ?thesis
    by (simp add: dungeon_test_placed)
qed

text \<open>
  C7 (amended): before carving, dungeon placement checks two cells of the candidate, the
  centre of the room and the cell above the centre of the ceiling, which must both be stone;
  it does not check the floor or the rest of the volume. It draws at most 5 candidates and
  builds at the first one that passes; when none passes the chunk is left unchanged, and
  nothing is written for a candidate that fails.
\<close>

theorem C7_dungeon_probes:
  "(fst (tryPlaceDungeon chunk rng) \<longrightarrow>
      (\<exists>k < 5. dungeonProbes chunk (candidateAt rng k)
         \<and> (\<forall>j < k. \<not> dungeonProbes chunk (candidateAt rng j))
         \<and> fst (snd (tryPlaceDungeon chunk rng)) = buildDungeonAt chunk (candidateAt rng k)))
   \<and> (\<not> fst (tryPlaceDungeon chunk rng) \<longrightarrow>
        fst (snd (tryPlaceDungeon chunk rng)) = chunk
        \<and> (\<forall>k < 5. \<not> dungeonProbes chunk (candidateAt rng k)))"
  by (rule tryPlaceDungeon_spec)

theorem C7_dungeon_probes_witness:
  "fst (tryPlaceDungeon dungeonTestChunk 0)
   \<and> (\<exists>k < 5. dungeonProbes dungeonTestChunk (candidateAt 0 k)
         \<and> fst (snd (tryPlaceDungeon dungeonTestChunk 0))
             = buildDungeonAt dungeonTestChunk (candidateAt 0 k))
   \<and> \<not> fst (tryPlaceDungeon (emptyChunk 0 0) 0)
   \<and> fst (snd (tryPlaceDungeon (emptyChunk 0 0) 0)) = emptyChunk 0 0"
proof -
  have p: "fst (tryPlaceDungeon dungeonTestChunk 0)"
    by (simp add: dungeon_test_placed)
  from C7_dungeon_probes [of dungeonTestChunk 0] C7_dungeon_probes [of "emptyChunk 0 0" 0]
    p dungeon_empty_not_placed
  show ?thesis by blast
qed

section \<open>Mineshaft supports and torches\<close>

lemma mineshaft_646_rng: "chunkRng_mineshaft 646 0 0 = 3253165180"
  by (simp add: chunkRng_mineshaft_def toInt32_def imul_def Let_def)

lemma mine646_0: "mulberry32 3253165180 = (37262604 / 4294967296, 789763697)"
  by (simp add: mulberry32_def mulberry32_word_def imul_def)

lemma mine646_1: "mulberry32 789763697 = (4114654335 / 4294967296, 2621329510)"
  by (simp add: mulberry32_def mulberry32_word_def imul_def)

lemma mine646_2: "mulberry32 2621329510 = (1156570083 / 4294967296, 157928027)"
  by (simp add: mulberry32_def mulberry32_word_def imul_def)

lemma mine646_3: "mulberry32 157928027 = (4160840533 / 4294967296, 1989493840)"
  by (simp add: mulberry32_def mulberry32_word_def imul_def)

lemma mine646_4: "mulberry32 1989493840 = (4249663766 / 4294967296, 3821059653)"
  by (simp add: mulberry32_def mulberry32_word_def imul_def)

lemma mine646_5: "mulberry32 3821059653 = (3167459853 / 4294967296, 1357658170)"
  by (simp add: mulberry32_def mulberry32_word_def imul_def)

lemma mine646_6: "mulberry32 1357658170 = (1786300913 / 4294967296, 3189223983)"
  by (simp add: mulberry32_def mulberry32_word_def imul_def)

lemma mine646_7: "mulberry32 3189223983 = (2431011800 / 4294967296, 725822500)"
  by (simp add: mulberry32_def mulberry32_word_def imul_def)

lemma mine646_8: "mulberry32 725822500 = (96198873 / 4294967296, 2557388313)"
  by (simp add: mulberry32_def mulberry32_word_def imul_def)

lemma mine646_9: "mulberry32 2557388313 = (3309985331 / 4294967296, 93986830)"
  by (simp add: mulberry32_def mulberry32_word_def imul_def)

lemma mine646_10: "mulberry32 93986830 = (3695964659 / 4294967296, 1925552643)"
  by (simp add: mulberry32_def mulberry32_word_def imul_def)

lemma mine646_11: "mulberry32 1925552643 = (1302571678 / 4294967296, 3757118456)"
  by (simp add: mulberry32_def mulberry32_word_def imul_def)

lemma mine646_12: "mulberry32 3757118456 = (1450229021 / 4294967296, 1293716973)"
  by (simp add: mulberry32_def mulberry32_word_def imul_def)

lemma mine646_13: "mulberry32 1293716973 = (2600052561 / 4294967296, 3125282786)"
  by (simp add: mulberry32_def mulberry32_word_def imul_def)

lemma mine646_14: "mulberry32 3125282786 = (1815809280 / 4294967296, 661881303)"
  by (simp add: mulberry32_def mulberry32_word_def imul_def)

lemma mine646_15: "mulberry32 661881303 = (1876941759 / 4294967296, 2493447116)"
  by (simp add: mulberry32_def mulberry32_word_def imul_def)

lemma mine646_16: "mulberry32 2493447116 = (2424826039 / 4294967296, 30045633)"
  by (simp add: mulberry32_def mulberry32_word_def imul_def)

lemma mine646_17: "mulberry32 30045633 = (3178248366 / 4294967296, 1861611446)"
  by (simp add: mulberry32_def mulberry32_word_def imul_def)

lemma mine646_18: "mulberry32 1861611446 = (3837203718 / 4294967296, 3693177259)"
  by (simp add: mulberry32_def mulberry32_word_def imul_def)

lemma mine646_19: "mulberry32 3693177259 = (797825547 / 4294967296, 1229775776)"
  by (simp add: mulberry32_def mulberry32_word_def imul_def)

lemmas mine646 = mine646_0 mine646_1 mine646_2 mine646_3 mine646_4 mine646_5 mine646_6 mine646_7 mine646_8 mine646_9 mine646_10 mine646_11 mine646_12 mine646_13 mine646_14 mine646_15 mine646_16 mine646_17 mine646_18 mine646_19

lemma mineshaft_646:
  "generate_mineshaft 646 c 0 0 =
     (if isStone c 5 40 13 then
        carveCorridor (carveCorridor (carveCorridor (carveCorridor
          (placeTorch (carveRoom c 4 40 12 3 3 3) 5 42 13)
            5 40 13 1 0 8) 5 40 13 0 (-1) 21) 5 40 13 (-1) 0 13) 5 40 13 0 1 14
      else c)"
  by (simp add: generate_mineshaft_def mineshaft_646_rng mine646 Let_def
      buildNetwork_def shuffleDirs_def DIRS_def inBounds_def)

lemma blocks_carveCell_other:
  "(a, b) \<noteq> (x, z) \<Longrightarrow> blocks (carveCell c a y' b) (x, y, z) = blocks c (x, y, z)"
  by (simp add: carveCell_def Let_def blocks_setBlock_other)

lemma blocks_placeTorch_other:
  "(a, b) \<noteq> (x, z) \<Longrightarrow> blocks (placeTorch c a y' b) (x, y, z) = blocks c (x, y, z)"
  by (simp add: placeTorch_def blocks_setBlock_other)

lemma blocks_carveRoom_other:
  assumes "x < sx \<or> sx + w \<le> x"
  shows "blocks (carveRoom c sx sy sz w h d) (x, y, z) = blocks c (x, y, z)"
  unfolding carveRoom_def
proof (rule fold2_blocks_preserved)
  fix a b and c' :: Chunk
  assume a: "a \<in> set [sx .. sx + w - 1]"
  hence ne: "(a, b) \<noteq> (x, z)" using assms by auto
  have "blocks (fold (\<lambda>dy chunk. carveCell chunk a (sy + dy) b) [0 .. h - 1] c') (x, y, z)
          = blocks c' (x, y, z)"
    by (rule fold_invariant [where P = "\<lambda>c''. blocks c'' (x, y, z) = blocks c' (x, y, z)"])
       (simp_all add: blocks_carveCell_other [OF ne])
  thus "blocks (if \<not> inBounds a b then c'
                else fold (\<lambda>dy chunk. carveCell chunk a (sy + dy) b) [0 .. h - 1] c') (x, y, z)
          = blocks c' (x, y, z)"
    by simp
qed

lemma blocks_placeSupport_other:
  assumes "x \<noteq> cx - px" "x \<noteq> cx" "x \<noteq> cx + px"
  shows "blocks (placeSupport c cx sy cz px pz) (x, y, z) = blocks c (x, y, z)"
  using assms
  by (simp add: placeSupport_def Let_def upto.simps blocks_setBlock_other)

lemma blocks_carveCorridorStep_other:
  assumes "x \<noteq> cx - px" "x \<noteq> cx" "x \<noteq> cx + px"
  shows "blocks (carveCorridorStep c cx sy cz px pz step) (x, y, z) = blocks c (x, y, z)"
  using assms
  by (simp add: carveCorridorStep_def Let_def upto.simps blocks_setBlock_other
      blocks_carveCell_other blocks_placeTorch_other blocks_placeSupport_other)

lemma blocks_carveCorridorFrom_other:
  assumes "\<And>k. step \<le> k \<Longrightarrow> k < len \<Longrightarrow>
             x \<noteq> sx + dx * k - (if dz \<noteq> 0 then 1 else 0) \<and> x \<noteq> sx + dx * k
             \<and> x \<noteq> sx + dx * k + (if dz \<noteq> 0 then 1 else 0)"
  shows "blocks (carveCorridorFrom c sx sy sz dx dz len step) (x, y, z) = blocks c (x, y, z)"
  using assms
proof (induction "nat (len - step)" arbitrary: step c)
  case 0
  hence "\<not> step < len" by simp
  thus ?case by (subst carveCorridorFrom.simps) simp
next
  case (Suc n)
  hence lt: "step < len" by linarith
  define px :: int where "px = (if dz \<noteq> 0 then 1 else 0)"
  define pz :: int where "pz = (if dx \<noteq> 0 then 1 else 0)"
  define cx where "cx = sx + dx * step"
  define cz where "cz = sz + dz * step"
  have here: "x \<noteq> cx - px \<and> x \<noteq> cx \<and> x \<noteq> cx + px"
    using Suc.prems [of step] lt by (simp add: px_def cx_def)
  have one: "blocks (carveCorridorStep c cx sy cz px pz step) (x, y, z) = blocks c (x, y, z)"
    using here by (intro blocks_carveCorridorStep_other) simp_all
  have rest: "blocks (carveCorridorFrom (carveCorridorStep c cx sy cz px pz step)
                 sx sy sz dx dz len (step + 1)) (x, y, z)
              = blocks (carveCorridorStep c cx sy cz px pz step) (x, y, z)"
  proof (rule Suc.hyps(1))
    show "n = nat (len - (step + 1))" using Suc.hyps(2) by linarith
  next
    fix k assume "step + 1 \<le> k" "k < len"
    thus "x \<noteq> sx + dx * k - (if dz \<noteq> 0 then 1 else 0) \<and> x \<noteq> sx + dx * k
             \<and> x \<noteq> sx + dx * k + (if dz \<noteq> 0 then 1 else 0)"
      using Suc.prems [of k] by simp
  qed
  have unf: "carveCorridorFrom c sx sy sz dx dz len step =
          (if \<not> inBounds (cx - px) (cz - pz) \<or> \<not> inBounds (cx + px) (cz + pz) then c
           else carveCorridorFrom (carveCorridorStep c cx sy cz px pz step)
                  sx sy sz dx dz len (step + 1))"
    using lt by (subst carveCorridorFrom.simps) (simp add: Let_def px_def pz_def cx_def cz_def)
  show ?case unfolding unf using one rest by simp
qed

lemma blocks_carveCorridor_side:
  assumes "dz \<noteq> 0" "dx = 0" "x < sx - 1 \<or> sx + 1 < x"
  shows "blocks (carveCorridor c sx sy sz dx dz len) (x, y, z) = blocks c (x, y, z)"
  unfolding carveCorridor_def using assms
  by (intro blocks_carveCorridorFrom_other) auto

lemma blocks_carveCorridor_behind:
  assumes "dz = 0" "dx = -1" "sx < x"
  shows "blocks (carveCorridor c sx sy sz dx dz len) (x, y, z) = blocks c (x, y, z)"
  unfolding carveCorridor_def using assms
  by (intro blocks_carveCorridorFrom_other) auto

lemma support_pillar:
  "blocks (carveCorridorStep c 9 40 13 0 1 4) (9, 41, 12) = WOOD_OAK"
  by (simp add: carveCorridorStep_def placeSupport_def placeTorch_def Let_def upto.simps
      inBounds_def blocks_setBlock chunkInBounds_def)

lemma corridor_east_unfold:
  "carveCorridor c 5 40 13 1 0 8 =
     carveCorridorFrom (carveCorridorStep
        (carveCorridorFrom c 5 40 13 1 0 4 0) 9 40 13 0 1 4) 5 40 13 1 0 8 5"
  by (simp add: carveCorridor_def inBounds_def)

lemma corridor_east_pillar:
  "blocks (carveCorridor c 5 40 13 1 0 8) (9, 41, 12) = WOOD_OAK"
  unfolding corridor_east_unfold
  by (subst blocks_carveCorridorFrom_other) (auto simp: support_pillar)

lemma mineshaft_646_pillar:
  assumes "isStone c 5 40 13"
  shows "blocks (generate_mineshaft 646 c 0 0) (9, 41, 12) = WOOD_OAK"
  using assms
  by (simp add: mineshaft_646 blocks_carveCorridor_side blocks_carveCorridor_behind
      corridor_east_pillar)

text \<open>
  C1 (mineshaft generation leaves \<open>BEDROCK\<close> and \<open>WATER\<close> cells as they are). The carving
  loops of \<open>carveRoom\<close> and \<open>carveCorridor\<close> do skip such cells, but \<open>placeSupport\<close> and
  \<open>placeTorch\<close> write with a check of \<open>(x, z)\<close> only. With seed 646 at world position
  \<open>(0, 0)\<close> the network starts at \<open>(5, 40, 13)\<close>, and the support of step 4 of its first
  corridor puts an oak log at \<open>(9, 41, 12)\<close> whatever that cell held before, water included.
\<close>

theorem C1_support_pillar_overwrites:
  "isStone c 5 40 13 \<Longrightarrow> getBlock (generate_mineshaft 646 c 0 0) 9 41 12 = WOOD_OAK"
  by (simp add: getBlock_def chunkInBounds_def mineshaft_646_pillar)

theorem C1_support_pillar_overwrites_witness:
  "isStone waterStoneChunk 5 40 13 \<and> getBlock waterStoneChunk 9 41 12 = WATER
   \<and> getBlock (generate_mineshaft 646 waterStoneChunk 0 0) 9 41 12 = WOOD_OAK"
  using C1_support_pillar_overwrites [of waterStoneChunk]
  by (simp add: waterStoneChunk_def isStone_def inBounds_def getBlock_def blocks_setBlock
      chunkInBounds_def)

section \<open>Spruce leaves\<close>

lemma fold_establish:
  assumes "x0 \<in> set xs" "\<And>s. P (f x0 s)" "\<And>x s. x \<in> set xs \<Longrightarrow> P s \<Longrightarrow> P (f x s)"
  shows "P (fold f xs s)"
  using assms
proof (induction xs arbitrary: s)
  case Nil
  thus ?case by simp
next
  case (Cons a xs)
  show ?case
  proof (cases "a = x0")
    case True
    have "P (f a s)" using True Cons.prems(2) by simp
    hence "P (fold f xs (f a s))"
      by (rule fold_invariant) (simp add: Cons.prems(3))
    thus ?thesis by simp
  next
    case False
    hence "x0 \<in> set xs" using Cons.prems(1) by simp
    hence "P (fold f xs (f a s))"
      by (rule Cons.IH) (simp_all add: Cons.prems)
    thus ?thesis by simp
  qed
qed

lemma spruce_leaf_kept:
  "blocks c p = LEAVES_SPRUCE \<Longrightarrow> blocks (setIfInBounds c a b d LEAVES_SPRUCE) p = LEAVES_SPRUCE"
  by (simp add: setIfInBounds_def blocks_setBlock)

lemma spruce_leaf_written:
  "isInBounds a b d \<Longrightarrow> blocks (setIfInBounds c a b d LEAVES_SPRUCE) (a, b, d) = LEAVES_SPRUCE"
  by (simp add: setIfInBounds_def blocks_setBlock isInBounds_def chunkInBounds_def)

text \<open>One layer of the cone, as the body of the loop over \<open>ly\<close> computes it.\<close>

lemma spruce_layer_kept:
  fixes c :: Chunk
  assumes "blocks c p = LEAVES_SPRUCE"
  shows "blocks (fold (\<lambda>dx. fold (\<lambda>dz chunk.
                if \<bar>dx\<bar> = radius \<and> \<bar>dz\<bar> = radius \<and> radius > 1 then chunk
                else if dx = 0 \<and> dz = 0 \<and> ly < tp then chunk
                else setIfInBounds chunk (lx + dx) ly (lz + dz) LEAVES_SPRUCE)
              zs) xs c) p = LEAVES_SPRUCE"
proof (rule fold_invariant [where P = "\<lambda>c'. blocks c' p = LEAVES_SPRUCE"])
  show "blocks c p = LEAVES_SPRUCE" by (rule assms)
next
  fix dx and c' :: Chunk
  assume "blocks c' p = LEAVES_SPRUCE"
  thus "blocks (fold (\<lambda>dz chunk.
                if \<bar>dx\<bar> = radius \<and> \<bar>dz\<bar> = radius \<and> radius > 1 then chunk
                else if dx = 0 \<and> dz = 0 \<and> ly < tp then chunk
                else setIfInBounds chunk (lx + dx) ly (lz + dz) LEAVES_SPRUCE) zs c') p
          = LEAVES_SPRUCE"
    by (rule fold_invariant) (simp add: spruce_leaf_kept)
qed

lemma spruce_bottom_layer:
  fixes c :: Chunk
  assumes "isInBounds (lx + 1) ly lz"
  shows "blocks (fold (\<lambda>dx. fold (\<lambda>dz chunk.
                if \<bar>dx\<bar> = 3 \<and> \<bar>dz\<bar> = 3 \<and> (3::int) > 1 then chunk
                else if dx = 0 \<and> dz = 0 \<and> ly < tp then chunk
                else setIfInBounds chunk (lx + dx) ly (lz + dz) LEAVES_SPRUCE)
              [- 3 .. 3]) [- 3 .. 3] c) (lx + 1, ly, lz) = LEAVES_SPRUCE"
proof (rule fold_establish [where ?x0.0 = 1 and P = "\<lambda>c'. blocks c' (lx + 1, ly, lz) = LEAVES_SPRUCE"])
  show "(1::int) \<in> set [- 3 .. 3]" by simp
next
  fix s :: Chunk
  show "blocks (fold (\<lambda>dz chunk.
                if \<bar>1\<bar> = 3 \<and> \<bar>dz\<bar> = 3 \<and> (3::int) > 1 then chunk
                else if (1::int) = 0 \<and> dz = 0 \<and> ly < tp then chunk
                else setIfInBounds chunk (lx + 1) ly (lz + dz) LEAVES_SPRUCE) [- 3 .. 3] s)
            (lx + 1, ly, lz) = LEAVES_SPRUCE"
  proof (rule fold_establish [where ?x0.0 = 0
        and P = "\<lambda>c'. blocks c' (lx + 1, ly, lz) = LEAVES_SPRUCE"])
    show "(0::int) \<in> set [- 3 .. 3]" by simp
  qed (simp_all add: spruce_leaf_written [OF assms] spruce_leaf_kept)
next
  fix dx and s :: Chunk
  assume "blocks s (lx + 1, ly, lz) = LEAVES_SPRUCE"
  thus "blocks (fold (\<lambda>dz chunk.
                if \<bar>dx\<bar> = 3 \<and> \<bar>dz\<bar> = 3 \<and> (3::int) > 1 then chunk
                else if dx = 0 \<and> dz = 0 \<and> ly < tp then chunk
                else setIfInBounds chunk (lx + dx) ly (lz + dz) LEAVES_SPRUCE) [- 3 .. 3] s)
            (lx + 1, ly, lz) = LEAVES_SPRUCE"
    by (rule fold_invariant) (simp add: spruce_leaf_kept)
qed

lemma spruceLayers_bottom:
  assumes inb: "isInBounds (lx + 1) (y + 2) lz" and h: "2 \<le> trunkHeight"
  shows "blocks (spruceLayers c lx y lz trunkHeight) (lx + 1, y + 2, lz) = LEAVES_SPRUCE"
proof -
  define rad where "rad ly =
      max (round ((1 - real_of_int (ly - (y + 2))
                       / real_of_int (max (y + trunkHeight - (y + 2) + 1 - 1) 1)) * 3)) 0" for ly
  define F where "F ly chunk =
      fold (\<lambda>dx. fold (\<lambda>dz chunk.
            if \<bar>dx\<bar> = rad ly \<and> \<bar>dz\<bar> = rad ly \<and> rad ly > 1 then chunk
            else if dx = 0 \<and> dz = 0 \<and> ly < y + trunkHeight then chunk
            else setIfInBounds chunk (lx + dx) ly (lz + dz) LEAVES_SPRUCE)
          [- rad ly .. rad ly]) [- rad ly .. rad ly] chunk" for ly and chunk :: Chunk
  have eq: "spruceLayers c lx y lz trunkHeight = fold F [y + 2 .. y + trunkHeight] c"
    unfolding spruceLayers_def Let_def F_def rad_def ..
  have rad0: "rad (y + 2) = 3" by (simp add: rad_def)
  show ?thesis
    unfolding eq
  proof (rule fold_establish [where ?x0.0 = "y + 2"
        and P = "\<lambda>c'. blocks c' (lx + 1, y + 2, lz) = LEAVES_SPRUCE"])
    show "y + 2 \<in> set [y + 2 .. y + trunkHeight]" using h by simp
  next
    fix s :: Chunk
    show "blocks (F (y + 2) s) (lx + 1, y + 2, lz) = LEAVES_SPRUCE"
      unfolding F_def rad0 by (rule spruce_bottom_layer [OF inb])
  next
    fix ly and s :: Chunk
    assume "blocks s (lx + 1, y + 2, lz) = LEAVES_SPRUCE"
    thus "blocks (F ly s) (lx + 1, y + 2, lz) = LEAVES_SPRUCE"
      unfolding F_def by (rule spruce_layer_kept)
  qed
qed

lemma placeSpruceTree_leaf:
  assumes "isInBounds (lx + 1) (y + 2) lz"
  shows "blocks (fst (placeSpruceTree c lx y lz rng)) (lx + 1, y + 2, lz) = LEAVES_SPRUCE"
proof -
  define r where "r = fst (mulberry32 rng)"
  define h where "h = 6 + \<lfloor>r * 4\<rfloor>"
  have "0 \<le> r" using fst_mulberry32_range [of rng] by (simp add: r_def)
  hence "0 \<le> \<lfloor>r * 4\<rfloor>" by simp
  hence h: "2 \<le> h" by (simp add: h_def)
  have eq: "fst (placeSpruceTree c lx y lz rng) =
        setIfInBounds (spruceLayers (placeTrunk c lx y lz h WOOD_SPRUCE) lx y lz h)
          lx (y + h + 1) lz LEAVES_SPRUCE"
    by (simp add: placeSpruceTree_def Let_def split_beta h_def r_def)
  show ?thesis
    unfolding eq by (rule spruce_leaf_kept) (rule spruceLayers_bottom [OF assms h])
qed

lemma placeLeafSphere_only_air:
  fixes c :: Chunk
  assumes "blocks c p = v" "v \<noteq> AIR"
  shows "blocks (placeLeafSphere c cx cy cz radius leafBlock) p = v"
  unfolding placeLeafSphere_def
proof (rule fold_invariant [where P = "\<lambda>c'. blocks c' p = v"])
  show "blocks c p = v" by (rule assms)
next
  fix dx and c1 :: Chunk
  assume "blocks c1 p = v"
  thus "blocks (fold (\<lambda>dy. fold (\<lambda>dz chunk.
         let distSq = dx * dx + dy * dy + dz * dz in
         if real_of_int distSq > (real_of_int radius + 0.5) * (real_of_int radius + 0.5) then chunk
         else
           let bx = cx + dx; by = cy + dy; bz = cz + dz in
           if isInBounds bx by bz then
             (let existing = getBlock chunk bx by bz in
              if existing = AIR then setBlock chunk bx by bz leafBlock else chunk)
           else chunk)
       [- radius .. radius]) [- radius .. radius + 1] c1) p = v"
  proof (rule fold_invariant [where P = "\<lambda>c'. blocks c' p = v"])
    fix dy and c2 :: Chunk
    assume "blocks c2 p = v"
    thus "blocks (fold (\<lambda>dz chunk.
         let distSq = dx * dx + dy * dy + dz * dz in
         if real_of_int distSq > (real_of_int radius + 0.5) * (real_of_int radius + 0.5) then chunk
         else
           let bx = cx + dx; by = cy + dy; bz = cz + dz in
           if isInBounds bx by bz then
             (let existing = getBlock chunk bx by bz in
              if existing = AIR then setBlock chunk bx by bz leafBlock else chunk)
           else chunk)
       [- radius .. radius] c2) p = v"
      using assms(2)
      by (intro fold_invariant [where P = "\<lambda>c'. blocks c' p = v"])
         (auto simp: Let_def blocks_setBlock getBlock_def isInBounds_def chunkInBounds_def)
  qed
qed

text \<open>
  C2 (leaves are written into \<open>AIR\<close> cells only, and tree blocks outside the chunk are
  dropped). \<open>placeLeafSphere\<close>, which oak, birch and jungle trees use, does test the cell for
  \<open>AIR\<close>, but the cone of \<open>placeSpruceTree\<close> writes through \<open>setIfInBounds\<close>, which tests the
  bounds only: the cell one step east of the trunk in the bottom layer of the cone holds
  spruce leaves after the call whatever it held before.
\<close>

theorem C2_spruce_leaf_overwrites:
  "isInBounds (lx + 1) (y + 2) lz \<Longrightarrow>
     getBlock (fst (generateTree chunk lx y lz SPRUCE rng)) (lx + 1) (y + 2) lz = LEAVES_SPRUCE"
  by (simp add: generateTree_def getBlock_def isInBounds_def chunkInBounds_def
      placeSpruceTree_leaf)

theorem C2_spruce_leaf_overwrites_witness:
  "isInBounds (8 + 1) (64 + 2) 8 \<and> getBlock stoneLedgeChunk 9 66 8 = STONE
   \<and> getBlock (fst (generateTree stoneLedgeChunk 8 64 8 SPRUCE 0)) 9 66 8 = LEAVES_SPRUCE"
  using C2_spruce_leaf_overwrites [of 8 64 8 stoneLedgeChunk 0]
  by (simp add: isInBounds_def stoneLedgeChunk_def getBlock_setBlock chunkInBounds_def)

section \<open>The two streams of the structure generator\<close>

lemma getBiome_plainsBiomeMap: "getBiome plainsBiomeMap wx wz = PLAINS"
  by (simp add: getBiome_def getTemperature_def getMoisture_def plainsBiomeMap_def Let_def)

lemma chunkRng_structure_1662: "chunkRng_structure 1662 0 0 = 2958850703"
  by (simp add: chunkRng_structure_def toInt32_def imul_def Let_def)

lemma structureRng_1662: "structureRng 1662 0 0 = 4064444793"
  by (simp add: structureRng_def toInt32_def imul_def Let_def)

lemma deco1662_0: "mulberry32 2958850703 = (3118260353 / 4294967296, 495449220)"
  by (simp add: mulberry32_def mulberry32_word_def imul_def)

lemma deco1662_1: "mulberry32 495449220 = (2700671305 / 4294967296, 2327015033)"
  by (simp add: mulberry32_def mulberry32_word_def imul_def)

lemma deco1662_2: "mulberry32 2327015033 = (3211224261 / 4294967296, 4158580846)"
  by (simp add: mulberry32_def mulberry32_word_def imul_def)

lemma deco1662_3: "mulberry32 4158580846 = (2425743525 / 4294967296, 1695179363)"
  by (simp add: mulberry32_def mulberry32_word_def imul_def)

lemma deco1662_4: "mulberry32 1695179363 = (1686822573 / 4294967296, 3526745176)"
  by (simp add: mulberry32_def mulberry32_word_def imul_def)

lemma deco1662_5: "mulberry32 3526745176 = (2577996132 / 4294967296, 1063343693)"
  by (simp add: mulberry32_def mulberry32_word_def imul_def)

lemma deco1662_6: "mulberry32 1063343693 = (2046165147 / 4294967296, 2894909506)"
  by (simp add: mulberry32_def mulberry32_word_def imul_def)

lemma deco1662_7: "mulberry32 2894909506 = (3088988340 / 4294967296, 431508023)"
  by (simp add: mulberry32_def mulberry32_word_def imul_def)

lemma deco1662_8: "mulberry32 431508023 = (1975362442 / 4294967296, 2263073836)"
  by (simp add: mulberry32_def mulberry32_word_def imul_def)

lemma deco1662_9: "mulberry32 2263073836 = (4230597815 / 4294967296, 4094639649)"
  by (simp add: mulberry32_def mulberry32_word_def imul_def)

lemma deco1662_10: "mulberry32 4094639649 = (21191941 / 4294967296, 1631238166)"
  by (simp add: mulberry32_def mulberry32_word_def imul_def)

lemma deco1662_11: "mulberry32 1631238166 = (2213338527 / 4294967296, 3462803979)"
  by (simp add: mulberry32_def mulberry32_word_def imul_def)

lemma deco1662_12: "mulberry32 3462803979 = (3001875805 / 4294967296, 999402496)"
  by (simp add: mulberry32_def mulberry32_word_def imul_def)

lemma deco1662_13: "mulberry32 999402496 = (3566451647 / 4294967296, 2830968309)"
  by (simp add: mulberry32_def mulberry32_word_def imul_def)

lemma deco1662_14: "mulberry32 2830968309 = (1321141509 / 4294967296, 367566826)"
  by (simp add: mulberry32_def mulberry32_word_def imul_def)

lemma deco1662_15: "mulberry32 367566826 = (909509734 / 4294967296, 2199132639)"
  by (simp add: mulberry32_def mulberry32_word_def imul_def)

lemma deco1662_16: "mulberry32 2199132639 = (1924691853 / 4294967296, 4030698452)"
  by (simp add: mulberry32_def mulberry32_word_def imul_def)

lemma deco1662_17: "mulberry32 4030698452 = (4019471100 / 4294967296, 1567296969)"
  by (simp add: mulberry32_def mulberry32_word_def imul_def)

lemma deco1662_18: "mulberry32 1567296969 = (3299002947 / 4294967296, 3398862782)"
  by (simp add: mulberry32_def mulberry32_word_def imul_def)

lemma deco1662_19: "mulberry32 3398862782 = (2633425059 / 4294967296, 935461299)"
  by (simp add: mulberry32_def mulberry32_word_def imul_def)

lemma deco1662_20: "mulberry32 935461299 = (33202550 / 4294967296, 2767027112)"
  by (simp add: mulberry32_def mulberry32_word_def imul_def)

lemma deco1662_21: "mulberry32 2767027112 = (1278758573 / 4294967296, 303625629)"
  by (simp add: mulberry32_def mulberry32_word_def imul_def)

lemma deco1662_22: "mulberry32 303625629 = (2180033289 / 4294967296, 2135191442)"
  by (simp add: mulberry32_def mulberry32_word_def imul_def)

lemma deco1662_23: "mulberry32 2135191442 = (2063060162 / 4294967296, 3966757255)"
  by (simp add: mulberry32_def mulberry32_word_def imul_def)

lemma deco1662_24: "mulberry32 3966757255 = (1786718404 / 4294967296, 1503355772)"
  by (simp add: mulberry32_def mulberry32_word_def imul_def)

lemma deco1662_25: "mulberry32 1503355772 = (3161600577 / 4294967296, 3334921585)"
  by (simp add: mulberry32_def mulberry32_word_def imul_def)

lemma deco1662_26: "mulberry32 3334921585 = (1175044169 / 4294967296, 871520102)"
  by (simp add: mulberry32_def mulberry32_word_def imul_def)

lemma deco1662_27: "mulberry32 871520102 = (1423219929 / 4294967296, 2703085915)"
  by (simp add: mulberry32_def mulberry32_word_def imul_def)

lemma deco1662_28: "mulberry32 2703085915 = (3457989648 / 4294967296, 239684432)"
  by (simp add: mulberry32_def mulberry32_word_def imul_def)

lemma deco1662_29: "mulberry32 239684432 = (3514117751 / 4294967296, 2071250245)"
  by (simp add: mulberry32_def mulberry32_word_def imul_def)

lemma deco1662_30: "mulberry32 2071250245 = (1413902522 / 4294967296, 3902816058)"
  by (simp add: mulberry32_def mulberry32_word_def imul_def)

lemma deco1662_31: "mulberry32 3902816058 = (3889552418 / 4294967296, 1439414575)"
  by (simp add: mulberry32_def mulberry32_word_def imul_def)

lemma deco1662_32: "mulberry32 1439414575 = (2295218897 / 4294967296, 3270980388)"
  by (simp add: mulberry32_def mulberry32_word_def imul_def)

lemma deco1662_33: "mulberry32 3270980388 = (634743780 / 4294967296, 807578905)"
  by (simp add: mulberry32_def mulberry32_word_def imul_def)

lemma deco1662_34: "mulberry32 807578905 = (1899272330 / 4294967296, 2639144718)"
  by (simp add: mulberry32_def mulberry32_word_def imul_def)

lemma deco1662_35: "mulberry32 2639144718 = (2390994977 / 4294967296, 175743235)"
  by (simp add: mulberry32_def mulberry32_word_def imul_def)

lemma deco1662_36: "mulberry32 175743235 = (3689588449 / 4294967296, 2007309048)"
  by (simp add: mulberry32_def mulberry32_word_def imul_def)

lemma deco1662_37: "mulberry32 2007309048 = (613149799 / 4294967296, 3838874861)"
  by (simp add: mulberry32_def mulberry32_word_def imul_def)

lemma deco1662_38: "mulberry32 3838874861 = (1449648928 / 4294967296, 1375473378)"
  by (simp add: mulberry32_def mulberry32_word_def imul_def)

lemma deco1662_39: "mulberry32 1375473378 = (1616075380 / 4294967296, 3207039191)"
  by (simp add: mulberry32_def mulberry32_word_def imul_def)

lemma deco1662_40: "mulberry32 3207039191 = (1986038316 / 4294967296, 743637708)"
  by (simp add: mulberry32_def mulberry32_word_def imul_def)

lemma deco1662_41: "mulberry32 743637708 = (1155114424 / 4294967296, 2575203521)"
  by (simp add: mulberry32_def mulberry32_word_def imul_def)

lemma deco1662_42: "mulberry32 2575203521 = (1992331027 / 4294967296, 111802038)"
  by (simp add: mulberry32_def mulberry32_word_def imul_def)

lemmas deco1662 = deco1662_0 deco1662_1 deco1662_2 deco1662_3 deco1662_4 deco1662_5 deco1662_6 deco1662_7 deco1662_8 deco1662_9 deco1662_10 deco1662_11 deco1662_12 deco1662_13 deco1662_14 deco1662_15 deco1662_16 deco1662_17 deco1662_18 deco1662_19 deco1662_20 deco1662_21 deco1662_22 deco1662_23 deco1662_24 deco1662_25 deco1662_26 deco1662_27 deco1662_28 deco1662_29 deco1662_30 deco1662_31 deco1662_32 deco1662_33 deco1662_34 deco1662_35 deco1662_36 deco1662_37 deco1662_38 deco1662_39 deco1662_40 deco1662_41 deco1662_42

lemma struct1662_0: "mulberry32 4064444793 = (40898907 / 4294967296, 1601043310)"
  by (simp add: mulberry32_def mulberry32_word_def imul_def)

lemma struct1662_1: "mulberry32 1601043310 = (198518871 / 4294967296, 3432609123)"
  by (simp add: mulberry32_def mulberry32_word_def imul_def)

lemma struct1662_2: "mulberry32 3432609123 = (337679989 / 4294967296, 969207640)"
  by (simp add: mulberry32_def mulberry32_word_def imul_def)

lemmas struct1662 = struct1662_0 struct1662_1 struct1662_2

lemma idle2_0: "mulberry32 2 = (3153583793 / 4294967296, 1831565815)"
  by (simp add: mulberry32_def mulberry32_word_def imul_def)

lemma idle2_1: "mulberry32 1831565815 = (1395857638 / 4294967296, 3663131628)"
  by (simp add: mulberry32_def mulberry32_word_def imul_def)

lemma idle5_0: "mulberry32 5 = (2962560684 / 4294967296, 1831565818)"
  by (simp add: mulberry32_def mulberry32_word_def imul_def)

lemma idle5_1: "mulberry32 1831565818 = (3318907087 / 4294967296, 3663131631)"
  by (simp add: mulberry32_def mulberry32_word_def imul_def)

lemmas idle = idle2_0 idle2_1 idle5_0 idle5_1

lemma deco_row0:
  assumes "\<And>z. getBlock c 0 65 z = AIR"
  shows "snd (fold (\<lambda>lz. decorateColumn flatHeightmap plainsBiomeMap 0 0 0 lz) [0 .. 15]
            (c, 2958850703)) = 4030698452"
  by (simp add: upto.simps decorateColumn_def decoratePlains_def flatHeightmap_def
      getBiome_plainsBiomeMap Let_def deco1662 getBlock_setBlock assms)

lemma deco_row1:
  assumes "\<And>z. getBlock c 1 65 z = AIR"
  shows "snd (fold (\<lambda>lz. decorateColumn flatHeightmap plainsBiomeMap 0 0 1 lz) [0 .. 15]
            (c, 4030698452)) = 807578905"
  by (simp add: upto.simps decorateColumn_def decoratePlains_def flatHeightmap_def
      getBiome_plainsBiomeMap Let_def deco1662 getBlock_setBlock assms)

text \<open>Row 2 up to the column \<open>(2, 7)\<close>: with the west wall of a cabin in the way, and without.\<close>

lemma deco_row2_wall:
  assumes "getBlock c 2 65 0 = AIR" "getBlock c 2 65 1 = AIR" "getBlock c 2 65 2 \<noteq> AIR"
    "getBlock c 2 65 3 \<noteq> AIR" "getBlock c 2 65 4 \<noteq> AIR" "getBlock c 2 65 5 \<noteq> AIR"
    "getBlock c 2 65 6 \<noteq> AIR" "getBlock c 2 65 7 = AIR"
  shows "getBlock (fst (fold (\<lambda>lz. decorateColumn flatHeightmap plainsBiomeMap 0 0 2 lz) [0 .. 7]
            (c, 807578905))) 2 65 7 = AIR"
  by (simp add: upto.simps decorateColumn_def decoratePlains_def flatHeightmap_def
      getBiome_plainsBiomeMap Let_def deco1662 getBlock_setBlock assms)

lemma deco_row2_clear:
  assumes "\<And>z. getBlock c 2 65 z = AIR"
  shows "getBlock (fst (fold (\<lambda>lz. decorateColumn flatHeightmap plainsBiomeMap 0 0 2 lz) [0 .. 7]
            (c, 807578905))) 2 65 7 = TALL_GRASS"
  by (simp add: upto.simps decorateColumn_def decoratePlains_def flatHeightmap_def
      getBiome_plainsBiomeMap Let_def deco1662 getBlock_setBlock assms chunkInBounds_def)

text \<open>A column of the decoration pass writes into its own column only.\<close>

lemma blocks_decorateDesert_other:
  assumes "(lx, lz) \<noteq> (x, z)"
  shows "blocks (fst (decorateDesert c lx y' lz rng)) (x, y, z) = blocks c (x, y, z)"
proof -
  have "blocks (fold (\<lambda>dy chunk. if y' + dy \<ge> 256 then chunk
                          else setBlock chunk lx (y' + dy) lz CACTUS) ds c) (x, y, z)
          = blocks c (x, y, z)" for ds
    by (rule fold_invariant [where P = "\<lambda>c'. blocks c' (x, y, z) = blocks c (x, y, z)"])
       (simp_all add: blocks_setBlock_other [OF assms])
  thus ?thesis
    by (simp add: decorateDesert_def Let_def split_beta)
qed

lemma blocks_decorateColumn_other:
  assumes "(lx, lz) \<noteq> (x, z)"
  shows "blocks (fst (decorateColumn hm bm wx wz lx lz st)) (x, y, z) = blocks (fst st) (x, y, z)"
  by (cases st)
     (simp add: decorateColumn_def Let_def split_beta decoratePlains_def decorateForest_def
        decorateTaiga_def decorateTundra_def decorateJungle_def decorateSwamp_def
        blocks_decorateDesert_other [OF assms] blocks_setBlock_other [OF assms]
        split: Biome.split)

lemma blocks_decorateRow_other:
  assumes "\<forall>lz \<in> set zs. (lx, lz) \<noteq> (x, z)"
  shows "blocks (fst (fold (\<lambda>lz. decorateColumn hm bm wx wz lx lz) zs st)) (x, y, z)
           = blocks (fst st) (x, y, z)"
  by (rule fold_invariant [where P = "\<lambda>st'. blocks (fst st') (x, y, z) = blocks (fst st) (x, y, z)"])
     (use assms in \<open>simp_all add: blocks_decorateColumn_other\<close>)

lemma blocks_decorateRows_other:
  assumes "x \<notin> set xs"
  shows "blocks (fst (fold (\<lambda>lx. fold (\<lambda>lz. decorateColumn hm bm wx wz lx lz) zs) xs st)) (x, y, z)
           = blocks (fst st) (x, y, z)"
proof (rule fold_invariant [where P = "\<lambda>st'. blocks (fst st') (x, y, z) = blocks (fst st) (x, y, z)"])
  show "blocks (fst st) (x, y, z) = blocks (fst st) (x, y, z)" ..
next
  fix lx and st' :: "Chunk \<times> Rng"
  assume "lx \<in> set xs" and st': "blocks (fst st') (x, y, z) = blocks (fst st) (x, y, z)"
  hence "\<forall>lz \<in> set zs. (lx, lz) \<noteq> (x, z)" using assms by auto
  thus "blocks (fst (fold (\<lambda>lz. decorateColumn hm bm wx wz lx lz) zs st')) (x, y, z)
          = blocks (fst st) (x, y, z)"
    using st' by (simp add: blocks_decorateRow_other)
qed

text \<open>
  The decoration of the cell \<open>(2, 65, 7)\<close> with the stream of seed 1662: the rows 0 and 1
  draw from the stream as on open ground, and the cell is decided in row 2.
\<close>

lemma decorateSurface_1662_cell:
  assumes row0: "\<And>z. getBlock c 0 65 z = AIR" and row1: "\<And>z. getBlock c 1 65 z = AIR"
  shows "\<exists>c2. (\<forall>z. getBlock c2 2 65 z = getBlock c 2 65 z) \<and>
           getBlock (fst (decorateSurface c flatHeightmap plainsBiomeMap 0 0 2958850703)) 2 65 7 =
           getBlock (fst (fold (\<lambda>lz. decorateColumn flatHeightmap plainsBiomeMap 0 0 2 lz) [0 .. 7]
                             (c2, 807578905))) 2 65 7"
proof -
  define R where "R lx = fold (\<lambda>lz. decorateColumn flatHeightmap plainsBiomeMap 0 0 lx lz) [0 .. 15]"
    for lx
  define st0 where "st0 = R 0 (c, 2958850703)"
  define st1 where "st1 = R 1 st0"
  have s0: "snd st0 = 4030698452"
    unfolding st0_def R_def by (rule deco_row0) (rule row0)
  have b0: "blocks (fst st0) (x, y, z) = blocks c (x, y, z)" if "x \<noteq> 0" for x y z
    unfolding st0_def R_def using that by (subst blocks_decorateRow_other) simp_all
  have air1: "getBlock (fst st0) 1 65 z = AIR" for z
    using row1 [of z] b0 [of 1 65 z] by (auto simp: getBlock_def split: if_splits)
  have "st1 = R 1 (fst st0, 4030698452)"
    unfolding st1_def using s0 by (metis prod.collapse)
  hence s1: "snd st1 = 807578905"
    unfolding R_def using deco_row1 [of "fst st0", OF air1] by simp
  have b1: "blocks (fst st1) (x, y, z) = blocks c (x, y, z)" if "x \<noteq> 0" "x \<noteq> 1" for x y z
    unfolding st1_def R_def using that b0 [of x y z]
    by (subst blocks_decorateRow_other) simp_all
  have c2: "getBlock (fst st1) 2 65 z = getBlock c 2 65 z" for z
    using b1 [of 2 65 z] by (simp add: getBlock_def)
  have rows: "[0 .. 15] = [0, 1, 2] @ [3 .. (15::int)]"
    by (simp add: upto.simps)
  have cols: "[0 .. 15] = [0 .. 7] @ [8 .. (15::int)]"
    by (simp add: upto.simps)
  have n: "(16::int) - 1 = 15" by simp
  have "decorateSurface c flatHeightmap plainsBiomeMap 0 0 2958850703 =
        fold R [0 .. 15] (c, 2958850703)"
    unfolding decorateSurface_def R_def n ..
  also have "\<dots> = fold R ([0, 1, 2] @ [3 .. 15]) (c, 2958850703)"
    by (subst rows) (rule refl)
  also have "\<dots> = fold R [3 .. 15] (R 2 st1)"
    unfolding st1_def st0_def by (simp only: fold_append fold_simps comp_apply)
  finally have surf: "decorateSurface c flatHeightmap plainsBiomeMap 0 0 2958850703 =
        fold R [3 .. 15] (R 2 st1)" .
  have r2: "R 2 st1 =
        fold (\<lambda>lz. decorateColumn flatHeightmap plainsBiomeMap 0 0 2 lz) [8 .. 15]
          (fold (\<lambda>lz. decorateColumn flatHeightmap plainsBiomeMap 0 0 2 lz) [0 .. 7] st1)"
    unfolding R_def by (subst cols) (simp only: fold_append comp_apply)
  have "blocks (fst (decorateSurface c flatHeightmap plainsBiomeMap 0 0 2958850703)) (2, 65, 7)
          = blocks (fst (R 2 st1)) (2, 65, 7)"
    unfolding surf R_def by (rule blocks_decorateRows_other) simp
  also have "\<dots> = blocks (fst (fold (\<lambda>lz. decorateColumn flatHeightmap plainsBiomeMap 0 0 2 lz)
                        [0 .. 7] st1)) (2, 65, 7)"
    unfolding r2 by (rule blocks_decorateRow_other) simp
  also have "st1 = (fst st1, 807578905)"
    using s1 by (metis prod.collapse)
  finally have "getBlock (fst (decorateSurface c flatHeightmap plainsBiomeMap 0 0 2958850703)) 2 65 7 =
           getBlock (fst (fold (\<lambda>lz. decorateColumn flatHeightmap plainsBiomeMap 0 0 2 lz) [0 .. 7]
                             (fst st1, 807578905))) 2 65 7"
    by (simp add: getBlock_def)
  with c2 show ?thesis by blast
qed

text \<open>Phase 1 on a flat heightmap in the plains: the structure stream of seed 1662 commits a
  cabin at \<open>(2, 2)\<close>; from the states 2 and 5 no roll succeeds.\<close>

lemma cabin_1662:
  "placeStructuresFrom c flatHeightmap plainsBiomeMap 0 0 rng 4064444793
     = (buildCabin c flatHeightmap 2 2, rng)"
  by (simp add: placeStructuresFrom_def getBiome_plainsBiomeMap struct1662 tryPlaceCabin_def
      isFlatArea_def flatHeightmap_def upto.simps Let_def)

lemma no_structure_2: "placeStructuresFrom c hm plainsBiomeMap 0 0 rng 2 = (c, rng)"
  by (simp add: placeStructuresFrom_def getBiome_plainsBiomeMap idle Let_def)

lemma no_structure_5: "placeStructuresFrom c hm plainsBiomeMap 0 0 rng 5 = (c, rng)"
  by (simp add: placeStructuresFrom_def getBiome_plainsBiomeMap idle Let_def)

lemma snd_placeStructuresFrom: "snd (placeStructuresFrom chunk hm bm wx wz rng s) = rng"
  by (simp add: placeStructuresFrom_def Let_def split_beta)

lemma fst_placeStructuresFrom:
  "fst (placeStructuresFrom chunk hm bm wx wz rng s) = fst (placeStructuresFrom chunk hm bm wx wz rng' s)"
  by (simp add: placeStructuresFrom_def Let_def split_beta)

lemma generateFrom_structure_eq:
  "generateFrom_structure seed chunk hm bm wx wz s =
     fst (decorateSurface (fst (placeStructuresFrom chunk hm bm wx wz rng s)) hm bm wx wz
            (chunkRng_structure seed wx wz))"
proof -
  have "placeStructuresFrom chunk hm bm wx wz (chunkRng_structure seed wx wz) s =
          (fst (placeStructuresFrom chunk hm bm wx wz rng s), chunkRng_structure seed wx wz)"
    using snd_placeStructuresFrom [of chunk hm bm wx wz "chunkRng_structure seed wx wz" s]
      fst_placeStructuresFrom [of chunk hm bm wx wz "chunkRng_structure seed wx wz" s rng]
    by (metis prod.collapse)
  thus ?thesis
    by (simp add: generateFrom_structure_def Let_def)
qed

lemma cabin_west_wall:
  "getBlock (buildCabin (emptyChunk 0 0) flatHeightmap 2 2) 2 65 2 = WOOD_OAK"
  "getBlock (buildCabin (emptyChunk 0 0) flatHeightmap 2 2) 2 65 3 = PLANKS_OAK"
  "getBlock (buildCabin (emptyChunk 0 0) flatHeightmap 2 2) 2 65 4 = PLANKS_OAK"
  "getBlock (buildCabin (emptyChunk 0 0) flatHeightmap 2 2) 2 65 5 = PLANKS_OAK"
  "getBlock (buildCabin (emptyChunk 0 0) flatHeightmap 2 2) 2 65 6 = WOOD_OAK"
  by code_simp+

lemma cabin_outside:
  assumes "x < 2 \<or> 8 < x \<or> z < 2 \<or> 6 < z"
  shows "getBlock (buildCabin (emptyChunk 0 0) hm 2 2) x y z = AIR"
proof -
  have "(x, z) \<notin> footprint 2 2 7 5"
    using assms by (auto simp: footprint_def)
  hence "blocks (buildCabin (emptyChunk 0 0) hm 2 2) (x, y, z) = blocks (emptyChunk 0 0) (x, y, z)"
    by (rule buildCabin_confined)
  thus ?thesis
    by (simp add: getBlock_def emptyChunk_def)
qed

lemma decoration_beside_cabin:
  "getBlock (fst (decorateSurface (buildCabin (emptyChunk 0 0) flatHeightmap 2 2)
       flatHeightmap plainsBiomeMap 0 0 2958850703)) 2 65 7 = AIR"
proof -
  obtain c2 where c2: "\<And>z. getBlock c2 2 65 z
        = getBlock (buildCabin (emptyChunk 0 0) flatHeightmap 2 2) 2 65 z"
    and cell: "getBlock (fst (decorateSurface (buildCabin (emptyChunk 0 0) flatHeightmap 2 2)
                 flatHeightmap plainsBiomeMap 0 0 2958850703)) 2 65 7 =
           getBlock (fst (fold (\<lambda>lz. decorateColumn flatHeightmap plainsBiomeMap 0 0 2 lz) [0 .. 7]
                             (c2, 807578905))) 2 65 7"
    using decorateSurface_1662_cell [of "buildCabin (emptyChunk 0 0) flatHeightmap 2 2"]
    by (auto simp: cabin_outside)
  show ?thesis
    unfolding cell
    by (rule deco_row2_wall) (simp_all add: c2 cabin_outside cabin_west_wall)
qed

lemma decoration_open_ground:
  "getBlock (fst (decorateSurface (emptyChunk 0 0) flatHeightmap plainsBiomeMap 0 0 2958850703))
     2 65 7 = TALL_GRASS"
proof -
  obtain c2 where c2: "\<And>z. getBlock c2 2 65 z = getBlock (emptyChunk 0 0) 2 65 z"
    and cell: "getBlock (fst (decorateSurface (emptyChunk 0 0)
                 flatHeightmap plainsBiomeMap 0 0 2958850703)) 2 65 7 =
           getBlock (fst (fold (\<lambda>lz. decorateColumn flatHeightmap plainsBiomeMap 0 0 2 lz) [0 .. 7]
                             (c2, 807578905))) 2 65 7"
    using decorateSurface_1662_cell [of "emptyChunk 0 0"]
    by (auto simp: getBlock_emptyChunk)
  show ?thesis
    unfolding cell
    by (rule deco_row2_clear) (simp add: c2 getBlock_emptyChunk)
qed

text \<open>
  C9, as stated, fails where a structure is committed. With seed 1662 at world position
  \<open>(0, 0)\<close>, on a flat heightmap in the plains, the structure stream commits a cabin on the
  columns \<open>2..8\<close> by \<open>2..6\<close>. Phase 2 skips the columns of its west wall without a draw, so
  the column \<open>(2, 7)\<close>, outside the cabin, meets another roll than it does when no structure
  roll succeeds (structure stream in state 2): it stays empty in the first run and bears tall
  grass in the second. The cabin itself leaves that cell empty.
\<close>

theorem C9_cabin_shifts_decoration:
  "fst (placeStructures 1662 (emptyChunk 0 0) flatHeightmap plainsBiomeMap 0 0
          (chunkRng_structure 1662 0 0)) = buildCabin (emptyChunk 0 0) flatHeightmap 2 2
   \<and> fst (placeStructuresFrom (emptyChunk 0 0) flatHeightmap plainsBiomeMap 0 0
          (chunkRng_structure 1662 0 0) 2) = emptyChunk 0 0
   \<and> (2, 7) \<notin> footprint 2 2 7 5
   \<and> getBlock (buildCabin (emptyChunk 0 0) flatHeightmap 2 2) 2 65 7 = AIR
   \<and> getBlock (generate_structure 1662 (emptyChunk 0 0) flatHeightmap plainsBiomeMap 0 0) 2 65 7
        = AIR
   \<and> getBlock (generateFrom_structure 1662 (emptyChunk 0 0) flatHeightmap plainsBiomeMap 0 0 2)
        2 65 7 = TALL_GRASS"
  by (simp add: placeStructures_def generate_structure_def generateFrom_structure_def
      structureRng_1662 chunkRng_structure_1662 cabin_1662 no_structure_2 footprint_def
      decoration_beside_cabin decoration_open_ground cabin_outside)

text \<open>
  C9, amended: \<open>placeStructures\<close> never draws from the decoration stream, so phase 2 always
  starts from the state \<open>chunkRng seed worldX worldZ\<close>; \<open>generate\<close> is phase 2 run from that
  state on the chunk that phase 1 left, and two structure streams that leave the same chunk
  (as when neither commits a structure) give the same result.
\<close>

theorem C9_decoration_stream_unperturbed:
  "snd (placeStructuresFrom chunk hm bm wx wz rng s) = rng
   \<and> generate_structure seed chunk hm bm wx wz
       = generateFrom_structure seed chunk hm bm wx wz (structureRng seed wx wz)
   \<and> generateFrom_structure seed chunk hm bm wx wz s
       = fst (decorateSurface (fst (placeStructuresFrom chunk hm bm wx wz rng s)) hm bm wx wz
                (chunkRng_structure seed wx wz))
   \<and> (fst (placeStructuresFrom chunk hm bm wx wz rng s1)
         = fst (placeStructuresFrom chunk hm bm wx wz rng s2)
       \<longrightarrow> generateFrom_structure seed chunk hm bm wx wz s1
             = generateFrom_structure seed chunk hm bm wx wz s2)"
proof -
  have "generate_structure seed chunk hm bm wx wz
       = generateFrom_structure seed chunk hm bm wx wz (structureRng seed wx wz)"
    by (simp add: generate_structure_def generateFrom_structure_def placeStructures_def Let_def)
  moreover have "generateFrom_structure seed chunk hm bm wx wz s1
             = generateFrom_structure seed chunk hm bm wx wz s2"
    if "fst (placeStructuresFrom chunk hm bm wx wz rng s1)
         = fst (placeStructuresFrom chunk hm bm wx wz rng s2)"
    using that generateFrom_structure_eq [of seed chunk hm bm wx wz s1 rng]
      generateFrom_structure_eq [of seed chunk hm bm wx wz s2 rng] by simp
  ultimately show ?thesis
    using snd_placeStructuresFrom [of chunk hm bm wx wz rng s]
      generateFrom_structure_eq [of seed chunk hm bm wx wz s rng] by blast
qed

theorem C9_decoration_stream_unperturbed_witness:
  "fst (placeStructuresFrom (emptyChunk 0 0) flatHeightmap plainsBiomeMap 0 0 0 2)
     = fst (placeStructuresFrom (emptyChunk 0 0) flatHeightmap plainsBiomeMap 0 0 0 5)
   \<and> generateFrom_structure 1662 (emptyChunk 0 0) flatHeightmap plainsBiomeMap 0 0 2
       = generateFrom_structure 1662 (emptyChunk 0 0) flatHeightmap plainsBiomeMap 0 0 5
   \<and> snd (placeStructuresFrom (emptyChunk 0 0) flatHeightmap plainsBiomeMap 0 0 0 2) = 0
   \<and> structureRng 1662 0 0 \<noteq> chunkRng_structure 1662 0 0"
  using C9_decoration_stream_unperturbed [of "emptyChunk 0 0" flatHeightmap plainsBiomeMap 0 0 0 2
      1662 2 5]
  by (auto simp: no_structure_2 no_structure_5 structureRng_1662 chunkRng_structure_1662)

end
